theory Spec2Isabelle
  imports Main "HOL-Library.Word"
begin

section \<open>Intel FPGA FME and Port devices (pkg/fpga/intel_fpga_linux.go)\<close>

text \<open>
  A shallow embedding of \<^verbatim>\<open>src/pkg/fpga/intel_fpga_linux.go\<close>. Every Go method with a
  pointer receiver takes the object and returns the updated object next to its results.
  The kernel driver, the sysfs tree and the helper functions of the package that live in
  other files are parameters of the model.
\<close>

type_synonym uint32 = "32 word"
type_synonym uint64 = "64 word"
type_synonym byte = "8 word"

subsection \<open>Errors and panics\<close>

text \<open>
  \<^verbatim>\<open>strconv.NumError\<close> carries \<^verbatim>\<open>ErrSyntax\<close> or \<^verbatim>\<open>ErrRange\<close>. \<open>Err_na\<close> is
  \<^verbatim>\<open>errors.Errorf("n/a")\<close>, \<open>Errno\<close> a system error code returned by an ioctl, and
  \<open>Err_ext\<close> an error of one of the helpers outside this file.
\<close>

datatype NumError = ErrSyntax | ErrRange

datatype error = Errno nat | Err_na | Err_num NumError | Err_ext string

text \<open>A Go run-time panic: \<^verbatim>\<open>index out of range [i] with length n\<close>.\<close>

datatype go_panic = IndexOutOfRange nat nat

subsection \<open>The Go standard library functions the file calls\<close>

text \<open>
  \<^verbatim>\<open>filepath.Base\<close> (Unix): the last element of the path; trailing slashes are removed
  first; the empty path gives \<^verbatim>\<open>"."\<close>, a path of slashes only gives \<^verbatim>\<open>"/"\<close>.
\<close>

definition is_sep :: "char \<Rightarrow> bool" where
  "is_sep c = (c = CHR ''/'')"

definition Base :: "string \<Rightarrow> string" where
  "Base path =
     (if path = [] then ''.''
      else
        let stripped = rev (dropWhile is_sep (rev path));
            lastel = rev (takeWhile (\<lambda>c. \<not> is_sep c) (rev stripped))
        in if lastel = [] then ''/'' else lastel)"

text \<open>
  \<^verbatim>\<open>filepath.Clean\<close> works on the elements between separators: empty elements and
  \<^verbatim>\<open>.\<close> are dropped, \<^verbatim>\<open>..\<close> removes the element before it when there is one, is
  dropped at the root, and is kept otherwise. The state of the loop is the number of
  leading \<^verbatim>\<open>..\<close> kept and the stack of real elements, last one first.
\<close>

fun path_elems :: "string \<Rightarrow> string \<Rightarrow> string list" where
  "path_elems cur [] = [rev cur]"
| "path_elems cur (c # cs) =
     (if is_sep c then rev cur # path_elems [] cs else path_elems (c # cur) cs)"

fun clean_step :: "bool \<Rightarrow> nat \<times> string list \<Rightarrow> string \<Rightarrow> nat \<times> string list" where
  "clean_step rooted (dotdot, out) e =
     (if e = [] \<or> e = ''.'' then (dotdot, out)
      else if e = ''..'' then
        (case out of
           x # xs \<Rightarrow> (dotdot, xs)
         | [] \<Rightarrow> if rooted then (dotdot, out) else (Suc dotdot, out))
      else (dotdot, e # out))"

fun strings_Join :: "string list \<Rightarrow> string \<Rightarrow> string" where
  "strings_Join [] sep = []"
| "strings_Join [e] sep = e"
| "strings_Join (e # es) sep = e @ sep @ strings_Join es sep"

definition Clean :: "string \<Rightarrow> string" where
  "Clean path =
     (if path = [] then ''.''
      else
        let rooted = is_sep (hd path);
            st = foldl (clean_step rooted) (0, []) (path_elems [] path);
            body = strings_Join (replicate (fst st) ''..'' @ rev (snd st)) ''/''
        in if rooted then CHR ''/'' # body
           else if body = [] then ''.'' else body)"

text \<open>
  \<^verbatim>\<open>filepath.Join\<close>: the leading empty elements are ignored, the rest is joined with
  the separator and cleaned; with no non-empty element the result is empty.
\<close>

definition Join :: "string list \<Rightarrow> string" where
  "Join elem =
     (case dropWhile (\<lambda>e. e = []) elem of
        [] \<Rightarrow> []
      | es \<Rightarrow> Clean (strings_Join es ''/''))"

text \<open>
  \<^verbatim>\<open>strconv.ParseUint(s, 10, bitSize)\<close>. The loop reads the bytes from the left. A byte
  that is not a decimal digit ends it with \<^verbatim>\<open>(0, ErrSyntax)\<close> (in base 10 a letter is a
  digit value of at least 10, which is the same error); a value beyond \<open>maxVal\<close> ends
  it with \<^verbatim>\<open>(maxVal, ErrRange)\<close>. \<open>n\<close> is a \<^verbatim>\<open>uint64\<close>: its arithmetic wraps.
  The file calls it with the bit size 32 only; the model is for bit sizes from 1 to 64.
\<close>

definition cutoff10 :: nat where
  "cutoff10 = (2 ^ 64 - 1) div 10 + 1"

fun parse_loop :: "nat \<Rightarrow> nat \<Rightarrow> string \<Rightarrow> nat \<times> NumError option" where
  "parse_loop maxVal n [] = (n, None)"
| "parse_loop maxVal n (c # cs) =
     (let k = (of_char c :: nat) in
      if 48 \<le> k \<and> k \<le> 57 then
        (if cutoff10 \<le> n then (maxVal, Some ErrRange)
         else
           let n10 = (n * 10) mod 2 ^ 64;
               n1 = (n10 + (k - 48)) mod 2 ^ 64
           in if n1 < n10 \<or> maxVal < n1 then (maxVal, Some ErrRange)
              else parse_loop maxVal n1 cs)
      else (0, Some ErrSyntax))"

definition ParseUint10 :: "string \<Rightarrow> nat \<Rightarrow> nat \<times> NumError option" where
  "ParseUint10 s bitSize =
     (if s = [] then (0, Some ErrSyntax) else parse_loop (2 ^ bitSize - 1) 0 s)"

text \<open>\<^verbatim>\<open>math.MaxUint32\<close>.\<close>

definition MaxUint32 :: uint32 where
  "MaxUint32 = 4294967295"

subsection \<open>The PCI device and the two device objects\<close>

text \<open>
  Of \<^verbatim>\<open>PCIDevice\<close> (declared in another file) the code reads two fields: the sysfs path
  and the pointer to the physical function, \<^verbatim>\<open>nil\<close> on a physical function.
\<close>

datatype PCIDevice = PCIDevice (PCI_SysFsPath: string) (PhysFn: "PCIDevice option")

record IntelFpgaFME =
  FME_DevPath :: string
  FME_SysFsPath :: string
  FME_Name :: string
  FME_PCIDevice :: "PCIDevice option"
  FME_SocketID :: string
  FME_Dev :: string
  FME_CompatID :: string
  FME_BitstreamID :: string
  FME_BitstreamMetadata :: string
  FME_PortsNum :: string

record IntelFpgaPort =
  Port_FME :: "IntelFpgaFME option"
  Port_DevPath :: string
  Port_SysFsPath :: string
  Port_Name :: string
  Port_PCIDevice :: "PCIDevice option"
  Port_Dev :: string
  Port_AFUID :: string
  Port_ID :: string

text \<open>\<^verbatim>\<open>&IntelFpgaFME{DevPath: dev}\<close> and \<^verbatim>\<open>&IntelFpgaPort{DevPath: dev}\<close>.\<close>

definition new_FME :: "string \<Rightarrow> IntelFpgaFME" where
  "new_FME dev =
     \<lparr>FME_DevPath = dev, FME_SysFsPath = [], FME_Name = [], FME_PCIDevice = None,
      FME_SocketID = [], FME_Dev = [], FME_CompatID = [], FME_BitstreamID = [],
      FME_BitstreamMetadata = [], FME_PortsNum = []\<rparr>"

definition new_Port :: "string \<Rightarrow> IntelFpgaPort" where
  "new_Port dev =
     \<lparr>Port_FME = None, Port_DevPath = dev, Port_SysFsPath = [], Port_Name = [],
      Port_PCIDevice = None, Port_Dev = [], Port_AFUID = [], Port_ID = []\<rparr>"

definition intelFpgaFmeGlobPCI :: string where
  "intelFpgaFmeGlobPCI = ''fpga/intel-fpga-dev.*/intel-fpga-fme.*''"

subsection \<open>The sysfs helpers of the package that are declared in other files\<close>

text \<open>
  \<^verbatim>\<open>FindSysFsDevice\<close>, \<^verbatim>\<open>NewPCIDevice\<close>, \<^verbatim>\<open>readFilesInDirectory\<close> and
  \<^verbatim>\<open>checkPCIDeviceType\<close> are functions of the package outside this file, and
  \<^verbatim>\<open>filepath.EvalSymlinks\<close> reads the file system: they are parameters. A call of
  \<^verbatim>\<open>readFilesInDirectory(fileMap, dir)\<close> gets the file names and the directory, and
  answers with the strings it stored through the pointers of the map and its error.
  \<^verbatim>\<open>checkPCIDeviceType\<close> gets the object through a pointer, so it answers with the
  object as it left it.
\<close>

record sysfs =
  FindSysFsDevice :: "string \<Rightarrow> error + string"
  NewPCIDevice :: "string \<Rightarrow> error + PCIDevice"
  readFiles :: "string list \<Rightarrow> string \<Rightarrow> (string \<rightharpoonup> string) \<times> error option"
  EvalSymlinks :: "string \<Rightarrow> error + string"
  checkPCIDeviceType_FME :: "IntelFpgaFME \<Rightarrow> error option \<times> IntelFpgaFME"
  checkPCIDeviceType_Port :: "IntelFpgaPort \<Rightarrow> error option \<times> IntelFpgaPort"

text \<open>The assignment \<^verbatim>\<open>*v = ...\<close> through a pointer of the file map, when it was made.\<close>

definition stored :: "(string \<rightharpoonup> string) \<Rightarrow> string \<Rightarrow> string \<Rightarrow> string" where
  "stored vals k old = (case vals k of None \<Rightarrow> old | Some v \<Rightarrow> v)"

subsection \<open>FME: identity accessors\<close>

definition FME_GetDevPath :: "IntelFpgaFME \<Rightarrow> string" where
  "FME_GetDevPath f = FME_DevPath f"

definition FME_GetSysFsPath :: "sysfs \<Rightarrow> IntelFpgaFME \<Rightarrow> string \<times> IntelFpgaFME" where
  "FME_GetSysFsPath env f =
     (if FME_SysFsPath f \<noteq> [] then (FME_SysFsPath f, f)
      else
        (case FindSysFsDevice env (FME_DevPath f) of
           Inl err \<Rightarrow> ([], f)
         | Inr sysfs \<Rightarrow> (sysfs, f\<lparr>FME_SysFsPath := sysfs\<rparr>)))"

definition FME_GetName :: "sysfs \<Rightarrow> IntelFpgaFME \<Rightarrow> string \<times> IntelFpgaFME" where
  "FME_GetName env f =
     (if FME_Name f \<noteq> [] then (FME_Name f, f)
      else
        (case FME_GetSysFsPath env f of
           (p, f1) \<Rightarrow> (Base p, f1\<lparr>FME_Name := Base p\<rparr>)))"

definition FME_GetPCIDevice ::
  "sysfs \<Rightarrow> IntelFpgaFME \<Rightarrow> (error + PCIDevice) \<times> IntelFpgaFME" where
  "FME_GetPCIDevice env f =
     (case FME_PCIDevice f of
        Some pci \<Rightarrow> (Inr pci, f)
      | None \<Rightarrow>
          (case FME_GetSysFsPath env f of
             (p, f1) \<Rightarrow>
               (case NewPCIDevice env p of
                  Inl err \<Rightarrow> (Inl err, f1)
                | Inr pci \<Rightarrow> (Inr pci, f1\<lparr>FME_PCIDevice := Some pci\<rparr>))))"

subsection \<open>FME: properties read from sysfs\<close>

text \<open>
  \<^verbatim>\<open>updateProperties\<close> hands \<^verbatim>\<open>readFilesInDirectory\<close> the six attribute files with
  pointers to the fields, and the directory below the FME's own PCI device.
\<close>

definition FME_fileNames :: "string list" where
  "FME_fileNames =
     [''bitstream_id'', ''bitstream_metadata'', ''dev'', ''ports_num'', ''socket_id'',
      ''pr/interface_id'']"

definition FME_updateProperties ::
  "sysfs \<Rightarrow> IntelFpgaFME \<Rightarrow> error option \<times> IntelFpgaFME" where
  "FME_updateProperties env f =
     (case FME_GetPCIDevice env f of
        (Inl err, f1) \<Rightarrow> (Some err, f1)
      | (Inr pci, f1) \<Rightarrow>
          (case readFiles env FME_fileNames (Join [PCI_SysFsPath pci, intelFpgaFmeGlobPCI]) of
             (vals, err) \<Rightarrow>
               (err,
                f1\<lparr>FME_BitstreamID := stored vals ''bitstream_id'' (FME_BitstreamID f1),
                   FME_BitstreamMetadata :=
                     stored vals ''bitstream_metadata'' (FME_BitstreamMetadata f1),
                   FME_Dev := stored vals ''dev'' (FME_Dev f1),
                   FME_PortsNum := stored vals ''ports_num'' (FME_PortsNum f1),
                   FME_SocketID := stored vals ''socket_id'' (FME_SocketID f1),
                   FME_CompatID := stored vals ''pr/interface_id'' (FME_CompatID f1)\<rparr>)))"

text \<open>\<^verbatim>\<open>GetPortsNum\<close> returns a Go \<^verbatim>\<open>int\<close>; \<open>- 1\<close> stands for every failure.\<close>

definition FME_GetPortsNum :: "sysfs \<Rightarrow> IntelFpgaFME \<Rightarrow> int \<times> IntelFpgaFME" where
  "FME_GetPortsNum env f =
     (case (if FME_PortsNum f = [] then FME_updateProperties env f else (None, f)) of
        (Some err, f1) \<Rightarrow> (- 1, f1)
      | (None, f1) \<Rightarrow>
          (case ParseUint10 (FME_PortsNum f1) 32 of
             (n, Some err) \<Rightarrow> (- 1, f1)
           | (n, None) \<Rightarrow> (int n, f1)))"

definition FME_GetInterfaceUUID :: "sysfs \<Rightarrow> IntelFpgaFME \<Rightarrow> string \<times> IntelFpgaFME" where
  "FME_GetInterfaceUUID env f =
     (case (if FME_CompatID f = [] then FME_updateProperties env f else (None, f)) of
        (Some err, f1) \<Rightarrow> ([], f1)
      | (None, f1) \<Rightarrow> (FME_CompatID f1, f1))"

text \<open>
  \<^verbatim>\<open>GetSocketID\<close> reads no file: an empty field is the error \<^verbatim>\<open>n/a\<close> with
  \<^verbatim>\<open>math.MaxUint32\<close>; otherwise the value and the error of \<^verbatim>\<open>ParseUint\<close> are passed
  on, the value cut to 32 bits.
\<close>

definition FME_GetSocketID :: "IntelFpgaFME \<Rightarrow> uint32 \<times> error option" where
  "FME_GetSocketID f =
     (if FME_SocketID f = [] then (MaxUint32, Some Err_na)
      else
        (case ParseUint10 (FME_SocketID f) 32 of
           (n, err) \<Rightarrow> (word_of_nat n, map_option Err_num err)))"

definition FME_GetBitstreamID :: "IntelFpgaFME \<Rightarrow> string" where
  "FME_GetBitstreamID f = FME_BitstreamID f"

definition FME_GetBitstreamMetadata :: "IntelFpgaFME \<Rightarrow> string" where
  "FME_GetBitstreamMetadata f = FME_BitstreamMetadata f"

text \<open>\<^verbatim>\<open>NewIntelFpgaFME\<close>: the device type is checked, then the properties are read.\<close>

definition NewIntelFpgaFME :: "sysfs \<Rightarrow> string \<Rightarrow> error + IntelFpgaFME" where
  "NewIntelFpgaFME env dev =
     (case checkPCIDeviceType_FME env (new_FME dev) of
        (Some err, fme) \<Rightarrow> Inl err
      | (None, fme) \<Rightarrow>
          (case FME_updateProperties env fme of
             (Some err, fme1) \<Rightarrow> Inl err
           | (None, fme1) \<Rightarrow> Inr fme1))"

subsection \<open>The ioctl layer\<close>

text \<open>
  The request codes are constants declared in another file; only their identity matters.
\<close>

datatype ioctl_op =
  FPGA_GET_API_VERSION | FPGA_CHECK_EXTENSION | FPGA_FME_PORT_PR | FPGA_FME_PORT_RELEASE
  | FPGA_FME_PORT_ASSIGN | FPGA_PORT_RESET | FPGA_PORT_GET_INFO | FPGA_PORT_GET_REGION_INFO

text \<open>
  The argument structures are declared in another file. The records hold the fields this
  file assigns or reads; every other field keeps its zero value.
\<close>

record IntelFpgaFmePortPR =
  PR_Argsz :: uint32
  PR_Port_id :: uint32
  PR_Buffer_size :: uint32
  PR_Buffer_address :: uint64

record IntelFpgaFmePortRelease =
  Release_Argsz :: uint32
  Release_Id :: uint32

record IntelFpgaFmePortAssign =
  Assign_Argsz :: uint32
  Assign_Id :: uint32

record IntelFpgaPortInfo =
  Info_Argsz :: uint32
  Info_Flags :: uint32
  Info_Regions :: uint32
  Info_Umsgs :: uint32

record IntelFpgaPortRegionInfo =
  Region_Argsz :: uint32
  Region_Flags :: uint32
  Region_Index :: uint32
  Region_Size :: uint64
  Region_Offset :: uint64

record PortInfo =
  PortInfo_Flags :: uint32
  PortInfo_Regions :: uint32
  PortInfo_Umsgs :: uint32

record PortRegionInfo =
  PortRegionInfo_Flags :: uint32
  PortRegionInfo_Index :: uint32
  PortRegionInfo_Offset :: uint64
  PortRegionInfo_Size :: uint64

text \<open>
  \<^verbatim>\<open>unsafe.Sizeof(value)\<close> depends on the declarations of the structures, which are not
  in this file: the byte sizes are a parameter.
\<close>

record abi =
  sizeof_FmePortPR :: nat
  sizeof_FmePortRelease :: nat
  sizeof_FmePortAssign :: nat
  sizeof_PortInfo :: nat
  sizeof_PortRegionInfo :: nat

text \<open>
  The third argument of \<^verbatim>\<open>ioctlDev\<close> is a \<^verbatim>\<open>uintptr\<close>: the constant 0, or the address of
  one of the structures, modelled by the structure it points to.
\<close>

datatype ioctl_arg =
  Arg_null
  | Arg_FmePortPR IntelFpgaFmePortPR
  | Arg_FmePortRelease IntelFpgaFmePortRelease
  | Arg_FmePortAssign IntelFpgaFmePortAssign
  | Arg_PortInfo IntelFpgaPortInfo
  | Arg_PortRegionInfo IntelFpgaPortRegionInfo

text \<open>
  What the object does to the outside is kept in a log: each ioctl with its device path,
  request code and argument as passed, and each call of \<^verbatim>\<open>Close\<close> on an FME.
\<close>

datatype event =
  Ev_ioctl string ioctl_op ioctl_arg
  | Ev_FME_Close string

text \<open>
  \<^verbatim>\<open>ioctlDev\<close> is declared in another file. The driver behind it is a parameter: from
  the log so far and the request it gives the returned value, the structure as the kernel
  left it, and the error.
\<close>

type_synonym driver =
  "event list \<Rightarrow> string \<Rightarrow> ioctl_op \<Rightarrow> ioctl_arg \<Rightarrow> uint64 \<times> ioctl_arg \<times> error option"

definition ioctlDev ::
  "driver \<Rightarrow> string \<Rightarrow> ioctl_op \<Rightarrow> ioctl_arg \<Rightarrow> event list
     \<Rightarrow> (uint64 \<times> ioctl_arg \<times> error option) \<times> event list" where
  "ioctlDev drv dev op arg log = (drv log dev op arg, log @ [Ev_ioctl dev op arg])"

text \<open>A Go slice of bytes: the address of its backing array and its elements.\<close>

record byte_slice =
  slice_addr :: uint64
  slice_data :: "byte list"

subsection \<open>Ioctls common to FME and Port\<close>

definition commonIntelFpgaGetAPIVersion ::
  "driver \<Rightarrow> string \<Rightarrow> event list \<Rightarrow> (int \<times> error option) \<times> event list" where
  "commonIntelFpgaGetAPIVersion drv fd log =
     (case ioctlDev drv fd FPGA_GET_API_VERSION Arg_null log of
        ((v, arg, err), log1) \<Rightarrow> ((sint v, err), log1))"

definition commonIntelFpgaCheckExtension ::
  "driver \<Rightarrow> string \<Rightarrow> event list \<Rightarrow> (int \<times> error option) \<times> event list" where
  "commonIntelFpgaCheckExtension drv fd log =
     (case ioctlDev drv fd FPGA_CHECK_EXTENSION Arg_null log of
        ((v, arg, err), log1) \<Rightarrow> ((sint v, err), log1))"

definition FME_GetAPIVersion ::
  "driver \<Rightarrow> IntelFpgaFME \<Rightarrow> event list \<Rightarrow> (int \<times> error option) \<times> event list" where
  "FME_GetAPIVersion drv f log = commonIntelFpgaGetAPIVersion drv (FME_DevPath f) log"

definition FME_CheckExtension ::
  "driver \<Rightarrow> IntelFpgaFME \<Rightarrow> event list \<Rightarrow> (int \<times> error option) \<times> event list" where
  "FME_CheckExtension drv f log = commonIntelFpgaCheckExtension drv (FME_DevPath f) log"

definition Port_GetAPIVersion ::
  "driver \<Rightarrow> IntelFpgaPort \<Rightarrow> event list \<Rightarrow> (int \<times> error option) \<times> event list" where
  "Port_GetAPIVersion drv f log = commonIntelFpgaGetAPIVersion drv (Port_DevPath f) log"

definition Port_CheckExtension ::
  "driver \<Rightarrow> IntelFpgaPort \<Rightarrow> event list \<Rightarrow> (int \<times> error option) \<times> event list" where
  "Port_CheckExtension drv f log = commonIntelFpgaCheckExtension drv (Port_DevPath f) log"

subsection \<open>FME ioctls\<close>

text \<open>
  \<^verbatim>\<open>PortPR\<close> fills the structure and then issues the ioctl. \<^verbatim>\<open>&bitstream[0]\<close> indexes
  the slice: with no element Go panics there, before \<^verbatim>\<open>ioctlDev\<close> is reached. The
  length is cut to 32 bits by \<^verbatim>\<open>uint32(len(bitstream))\<close>.
\<close>

definition FME_PortPR ::
  "abi \<Rightarrow> driver \<Rightarrow> IntelFpgaFME \<Rightarrow> uint32 \<Rightarrow> byte_slice \<Rightarrow> event list
     \<Rightarrow> (go_panic + error option) \<times> event list" where
  "FME_PortPR sz drv f port bitstream log =
     (if slice_data bitstream = [] then (Inl (IndexOutOfRange 0 0), log)
      else
        let val = \<lparr>PR_Argsz = word_of_nat (sizeof_FmePortPR sz),
                   PR_Port_id = port,
                   PR_Buffer_size = word_of_nat (length (slice_data bitstream)),
                   PR_Buffer_address = slice_addr bitstream\<rparr>
        in (case ioctlDev drv (FME_DevPath f) FPGA_FME_PORT_PR (Arg_FmePortPR val) log of
              ((v, arg, err), log1) \<Rightarrow> (Inr err, log1)))"

definition FME_PortRelease ::
  "abi \<Rightarrow> driver \<Rightarrow> IntelFpgaFME \<Rightarrow> uint32 \<Rightarrow> event list \<Rightarrow> error option \<times> event list" where
  "FME_PortRelease sz drv f port log =
     (let val = \<lparr>Release_Argsz = word_of_nat (sizeof_FmePortRelease sz), Release_Id = port\<rparr>
      in (case ioctlDev drv (FME_DevPath f) FPGA_FME_PORT_RELEASE (Arg_FmePortRelease val) log of
            ((v, arg, err), log1) \<Rightarrow> (err, log1)))"

definition FME_PortAssign ::
  "abi \<Rightarrow> driver \<Rightarrow> IntelFpgaFME \<Rightarrow> uint32 \<Rightarrow> event list \<Rightarrow> error option \<times> event list" where
  "FME_PortAssign sz drv f port log =
     (let val = \<lparr>Assign_Argsz = word_of_nat (sizeof_FmePortAssign sz), Assign_Id = port\<rparr>
      in (case ioctlDev drv (FME_DevPath f) FPGA_FME_PORT_ASSIGN (Arg_FmePortAssign val) log of
            ((v, arg, err), log1) \<Rightarrow> (err, log1)))"

text \<open>\<^verbatim>\<open>Close\<close> of an FME returns \<^verbatim>\<open>nil\<close>; the call is noted in the log.\<close>

definition FME_Close :: "IntelFpgaFME \<Rightarrow> event list \<Rightarrow> error option \<times> event list" where
  "FME_Close f log = (None, log @ [Ev_FME_Close (FME_DevPath f)])"

subsection \<open>Port: lifetime\<close>

text \<open>
  \<^verbatim>\<open>Close\<close> of a Port defers \<^verbatim>\<open>f.FME.Close()\<close> when the field is not \<^verbatim>\<open>nil\<close> and
  returns \<^verbatim>\<open>nil\<close>; the result of the deferred call is dropped.
\<close>

definition Port_Close :: "IntelFpgaPort \<Rightarrow> event list \<Rightarrow> error option \<times> event list" where
  "Port_Close f log =
     (case Port_FME f of
        Some fme \<Rightarrow> (None, snd (FME_Close fme log))
      | None \<Rightarrow> (None, log))"

subsection \<open>Port ioctls\<close>

definition Port_PortReset ::
  "driver \<Rightarrow> IntelFpgaPort \<Rightarrow> event list \<Rightarrow> error option \<times> event list" where
  "Port_PortReset drv f log =
     (case ioctlDev drv (Port_DevPath f) FPGA_PORT_RESET Arg_null log of
        ((v, arg, err), log1) \<Rightarrow> (err, log1))"

definition zero_PortInfo :: PortInfo where
  "zero_PortInfo = \<lparr>PortInfo_Flags = 0, PortInfo_Regions = 0, PortInfo_Umsgs = 0\<rparr>"

definition zero_PortRegionInfo :: PortRegionInfo where
  "zero_PortRegionInfo =
     \<lparr>PortRegionInfo_Flags = 0, PortRegionInfo_Index = 0, PortRegionInfo_Offset = 0,
      PortRegionInfo_Size = 0\<rparr>"

text \<open>
  After the call the fields are read from the structure as the kernel left it; a driver
  that wrote nothing of that shape leaves the structure as it was passed.
\<close>

definition Port_PortGetInfo ::
  "abi \<Rightarrow> driver \<Rightarrow> IntelFpgaPort \<Rightarrow> event list \<Rightarrow> (PortInfo \<times> error option) \<times> event list" where
  "Port_PortGetInfo sz drv f log =
     (let val = \<lparr>Info_Argsz = word_of_nat (sizeof_PortInfo sz), Info_Flags = 0,
                 Info_Regions = 0, Info_Umsgs = 0\<rparr>
      in (case ioctlDev drv (Port_DevPath f) FPGA_PORT_GET_INFO (Arg_PortInfo val) log of
            ((v, arg, err), log1) \<Rightarrow>
              (let val1 = (case arg of Arg_PortInfo w \<Rightarrow> w | _ \<Rightarrow> val)
               in (case err of
                     None \<Rightarrow>
                       ((\<lparr>PortInfo_Flags = Info_Flags val1, PortInfo_Regions = Info_Regions val1,
                          PortInfo_Umsgs = Info_Umsgs val1\<rparr>, None), log1)
                   | Some e \<Rightarrow> ((zero_PortInfo, Some e), log1)))))"

definition Port_PortGetRegionInfo ::
  "abi \<Rightarrow> driver \<Rightarrow> IntelFpgaPort \<Rightarrow> uint32 \<Rightarrow> event list
     \<Rightarrow> (PortRegionInfo \<times> error option) \<times> event list" where
  "Port_PortGetRegionInfo sz drv f index log =
     (let val = \<lparr>Region_Argsz = word_of_nat (sizeof_PortRegionInfo sz), Region_Flags = 0,
                 Region_Index = index, Region_Size = 0, Region_Offset = 0\<rparr>
      in (case ioctlDev drv (Port_DevPath f) FPGA_PORT_GET_REGION_INFO
                 (Arg_PortRegionInfo val) log of
            ((v, arg, err), log1) \<Rightarrow>
              (let val1 = (case arg of Arg_PortRegionInfo w \<Rightarrow> w | _ \<Rightarrow> val)
               in (case err of
                     None \<Rightarrow>
                       ((\<lparr>PortRegionInfo_Flags = Region_Flags val1,
                          PortRegionInfo_Index = Region_Index val1,
                          PortRegionInfo_Offset = Region_Offset val1,
                          PortRegionInfo_Size = Region_Size val1\<rparr>, None), log1)
                   | Some e \<Rightarrow> ((zero_PortRegionInfo, Some e), log1)))))"

subsection \<open>Port: identity accessors\<close>

definition Port_GetDevPath :: "IntelFpgaPort \<Rightarrow> string" where
  "Port_GetDevPath f = Port_DevPath f"

definition Port_GetSysFsPath :: "sysfs \<Rightarrow> IntelFpgaPort \<Rightarrow> string \<times> IntelFpgaPort" where
  "Port_GetSysFsPath env f =
     (if Port_SysFsPath f \<noteq> [] then (Port_SysFsPath f, f)
      else
        (case FindSysFsDevice env (Port_DevPath f) of
           Inl err \<Rightarrow> ([], f)
         | Inr sysfs \<Rightarrow> (sysfs, f\<lparr>Port_SysFsPath := sysfs\<rparr>)))"

definition Port_GetName :: "sysfs \<Rightarrow> IntelFpgaPort \<Rightarrow> string \<times> IntelFpgaPort" where
  "Port_GetName env f =
     (if Port_Name f \<noteq> [] then (Port_Name f, f)
      else
        (case Port_GetSysFsPath env f of
           (p, f1) \<Rightarrow> (Base p, f1\<lparr>Port_Name := Base p\<rparr>)))"

definition Port_GetPCIDevice ::
  "sysfs \<Rightarrow> IntelFpgaPort \<Rightarrow> (error + PCIDevice) \<times> IntelFpgaPort" where
  "Port_GetPCIDevice env f =
     (case Port_PCIDevice f of
        Some pci \<Rightarrow> (Inr pci, f)
      | None \<Rightarrow>
          (case Port_GetSysFsPath env f of
             (p, f1) \<Rightarrow>
               (case NewPCIDevice env p of
                  Inl err \<Rightarrow> (Inl err, f1)
                | Inr pci \<Rightarrow> (Inr pci, f1\<lparr>Port_PCIDevice := Some pci\<rparr>))))"

text \<open>
  \<^verbatim>\<open>GetFME\<close>: a stored FME is returned as it is. Otherwise the PCI device of the Port is
  replaced by its physical function when it has one, the file \<^verbatim>\<open>dev\<close> is read below
  that device, the link below \<^verbatim>\<open>/dev/char\<close> is resolved and the FME is opened there.
  The local \<^verbatim>\<open>dev\<close> starts empty.
\<close>

definition Port_GetFME ::
  "sysfs \<Rightarrow> IntelFpgaPort \<Rightarrow> (error + IntelFpgaFME) \<times> IntelFpgaPort" where
  "Port_GetFME env f =
     (case Port_FME f of
        Some fme \<Rightarrow> (Inr fme, f)
      | None \<Rightarrow>
          (case Port_GetPCIDevice env f of
             (Inl err, f1) \<Rightarrow> (Inl err, f1)
           | (Inr pci0, f1) \<Rightarrow>
               (let pci = (case PhysFn pci0 of Some pf \<Rightarrow> pf | None \<Rightarrow> pci0)
                in (case readFiles env [''dev'']
                           (Join [PCI_SysFsPath pci, intelFpgaFmeGlobPCI]) of
                      (vals, Some err) \<Rightarrow> (Inl err, f1)
                    | (vals, None) \<Rightarrow>
                        (case EvalSymlinks env (Join [''/dev/char'', stored vals ''dev'' []]) of
                           Inl err \<Rightarrow> (Inl err, f1)
                         | Inr realDev \<Rightarrow>
                             (case NewIntelFpgaFME env realDev of
                                Inl err \<Rightarrow> (Inl err, f1)
                              | Inr fme \<Rightarrow> (Inr fme, f1\<lparr>Port_FME := Some fme\<rparr>)))))))"

subsection \<open>Port: properties read from sysfs\<close>

definition Port_fileNames :: "string list" where
  "Port_fileNames = [''afu_id'', ''dev'', ''id'']"

definition Port_updateProperties ::
  "sysfs \<Rightarrow> IntelFpgaPort \<Rightarrow> error option \<times> IntelFpgaPort" where
  "Port_updateProperties env f =
     (case Port_GetSysFsPath env f of
        (p, f1) \<Rightarrow>
          (case readFiles env Port_fileNames p of
             (vals, err) \<Rightarrow>
               (err,
                f1\<lparr>Port_AFUID := stored vals ''afu_id'' (Port_AFUID f1),
                   Port_Dev := stored vals ''dev'' (Port_Dev f1),
                   Port_ID := stored vals ''id'' (Port_ID f1)\<rparr>)))"

definition Port_GetPortID ::
  "sysfs \<Rightarrow> IntelFpgaPort \<Rightarrow> (uint32 \<times> error option) \<times> IntelFpgaPort" where
  "Port_GetPortID env f =
     (case (if Port_ID f = [] then Port_updateProperties env f else (None, f)) of
        (Some err, f1) \<Rightarrow> ((MaxUint32, Some err), f1)
      | (None, f1) \<Rightarrow>
          (case ParseUint10 (Port_ID f1) 32 of
             (n, err) \<Rightarrow> ((word_of_nat n, map_option Err_num err), f1)))"

definition Port_GetAcceleratorTypeUUID ::
  "sysfs \<Rightarrow> IntelFpgaPort \<Rightarrow> string \<times> IntelFpgaPort" where
  "Port_GetAcceleratorTypeUUID env f =
     (case Port_updateProperties env f of
        (err, f1) \<Rightarrow> (if err \<noteq> None \<or> Port_AFUID f1 = [] then ([], f1) else (Port_AFUID f1, f1)))"

text \<open>
  \<^verbatim>\<open>GetInterfaceUUID\<close> of a Port asks the FME of the Port and closes it on the way out.
  The Port holds the FME through a pointer, so what the FME's accessor stored is seen
  through the Port.
\<close>

definition Port_GetInterfaceUUID ::
  "sysfs \<Rightarrow> IntelFpgaPort \<Rightarrow> event list \<Rightarrow> string \<times> IntelFpgaPort \<times> event list" where
  "Port_GetInterfaceUUID env f log =
     (case Port_GetFME env f of
        (Inl err, f1) \<Rightarrow> ([], f1, log)
      | (Inr fme, f1) \<Rightarrow>
          (case FME_GetInterfaceUUID env fme of
             (uuid, fme1) \<Rightarrow> (uuid, f1\<lparr>Port_FME := Some fme1\<rparr>, snd (FME_Close fme1 log))))"

text \<open>\<^verbatim>\<open>NewIntelFpgaPort\<close> closes the Port on each error path.\<close>

definition NewIntelFpgaPort ::
  "sysfs \<Rightarrow> string \<Rightarrow> event list \<Rightarrow> (error + IntelFpgaPort) \<times> event list" where
  "NewIntelFpgaPort env dev log =
     (case checkPCIDeviceType_Port env (new_Port dev) of
        (Some err, port) \<Rightarrow> (Inl err, snd (Port_Close port log))
      | (None, port) \<Rightarrow>
          (case Port_updateProperties env port of
             (Some err, port1) \<Rightarrow> (Inl err, snd (Port_Close port1 log))
           | (None, port1) \<Rightarrow> (Inr port1, log)))"

subsection \<open>Partial reconfiguration of a Port\<close>

datatype pr_step = Step_GetFME | Step_GetPortID | Step_Release | Step_PR | Step_Assign

datatype pr_result = PR_done | PR_failed pr_step error | PR_panicked go_panic

text \<open>
  Modelled from the spec: \<^verbatim>\<open>genericPortPR\<close>, which \<^verbatim>\<open>IntelFpgaPort.PR\<close> calls, is
  declared in another file of the package. Section 4.6 of the specification gives its
  steps: the owning FME of the Port is resolved; a dry run stops there, without a
  release, PR or assign call; otherwise \<^verbatim>\<open>FME.portRelease(portId)\<close>,
  \<^verbatim>\<open>FME.portPR(portId, buffer)\<close> and \<^verbatim>\<open>FME.portAssign(portId)\<close> follow in that order,
  the failure of a step ends the sequence and is reported with the step. The port id is
  the numeric id of the Port (\<^verbatim>\<open>GetPortID\<close>); the three calls are the FME methods of
  this file. The bitstream is taken as its payload, a slice of bytes.
\<close>

definition genericPortPR ::
  "sysfs \<Rightarrow> abi \<Rightarrow> driver \<Rightarrow> IntelFpgaPort \<Rightarrow> byte_slice \<Rightarrow> bool \<Rightarrow> event list
     \<Rightarrow> pr_result \<times> IntelFpgaPort \<times> event list" where
  "genericPortPR env sz drv f bs dryRun log =
     (case Port_GetFME env f of
        (Inl err, f1) \<Rightarrow> (PR_failed Step_GetFME err, f1, log)
      | (Inr fme, f1) \<Rightarrow>
          (case Port_GetPortID env f1 of
             ((portId, Some err), f2) \<Rightarrow> (PR_failed Step_GetPortID err, f2, log)
           | ((portId, None), f2) \<Rightarrow>
               if dryRun then (PR_done, f2, log)
               else
                 (case FME_PortRelease sz drv fme portId log of
                    (Some err, log1) \<Rightarrow> (PR_failed Step_Release err, f2, log1)
                  | (None, log1) \<Rightarrow>
                      (case FME_PortPR sz drv fme portId bs log1 of
                         (Inl p, log2) \<Rightarrow> (PR_panicked p, f2, log2)
                       | (Inr (Some err), log2) \<Rightarrow> (PR_failed Step_PR err, f2, log2)
                       | (Inr None, log2) \<Rightarrow>
                           (case FME_PortAssign sz drv fme portId log2 of
                              (Some err, log3) \<Rightarrow> (PR_failed Step_Assign err, f2, log3)
                            | (None, log3) \<Rightarrow> (PR_done, f2, log3))))))"

text \<open>\<^verbatim>\<open>PR\<close> of a Port is \<^verbatim>\<open>genericPortPR\<close> on the Port.\<close>

definition Port_PR ::
  "sysfs \<Rightarrow> abi \<Rightarrow> driver \<Rightarrow> IntelFpgaPort \<Rightarrow> byte_slice \<Rightarrow> bool \<Rightarrow> event list
     \<Rightarrow> pr_result \<times> IntelFpgaPort \<times> event list" where
  "Port_PR env sz drv f bs dryRun log = genericPortPR env sz drv f bs dryRun log"

subsection \<open>A concrete machine\<close>

text \<open>
  One card for the examples: a Port \<^verbatim>\<open>/dev/intel-fpga-port.0\<close> on the virtual function
  \<^verbatim>\<open>/sys/vf\<close>, whose physical function \<^verbatim>\<open>/sys/pf\<close> carries the FME
  \<^verbatim>\<open>/dev/intel-fpga-fme.0\<close> with device number \<^verbatim>\<open>240:0\<close>. Below the virtual function
  there is a \<^verbatim>\<open>dev\<close> file too, with another number, which resolves to no FME.
\<close>

definition port0_sysfs :: string where
  "port0_sysfs = ''/sys/vf/fpga/intel-fpga-dev.0/intel-fpga-port.0''"

definition fme0_sysfs :: string where
  "fme0_sysfs = ''/sys/pf/fpga/intel-fpga-dev.0/intel-fpga-fme.0''"

definition pf0 :: PCIDevice where
  "pf0 = PCIDevice ''/sys/pf'' None"

definition vf0 :: PCIDevice where
  "vf0 = PCIDevice ''/sys/vf'' (Some pf0)"

definition fme0_files :: "(string \<times> string) list" where
  "fme0_files =
     [(''bitstream_id'', ''0x23000410010310''), (''bitstream_metadata'', ''0x1612156''),
      (''dev'', ''240:0''), (''ports_num'', ''1''), (''socket_id'', ''0''),
      (''pr/interface_id'', ''ce489693-98f0-5f33-946d-560708be108a'')]"

definition port0_files :: "(string \<times> string) list" where
  "port0_files =
     [(''afu_id'', ''d8424dc4-a4a3-c413-f89e-433683f9040b''), (''dev'', ''240:1''),
      (''id'', ''0'')]"

definition files_in :: "(string \<times> string) list \<Rightarrow> string list \<Rightarrow> string \<rightharpoonup> string" where
  "files_in table names = map_of (filter (\<lambda>kv. fst kv \<in> set names) table)"

definition env0 :: sysfs where
  "env0 =
     \<lparr>FindSysFsDevice =
        (\<lambda>dev. if dev = ''/dev/intel-fpga-port.0'' then Inr port0_sysfs
               else if dev = ''/dev/intel-fpga-fme.0'' then Inr fme0_sysfs
               else Inl (Err_ext ''no sysfs entry'')),
      NewPCIDevice =
        (\<lambda>p. if p = port0_sysfs then Inr vf0
             else if p = fme0_sysfs then Inr pf0
             else Inl (Err_ext ''no PCI device'')),
      readFiles =
        (\<lambda>names dir.
           if dir = ''/sys/pf/fpga/intel-fpga-dev.*/intel-fpga-fme.*''
           then (files_in fme0_files names, None)
           else if dir = ''/sys/vf/fpga/intel-fpga-dev.*/intel-fpga-fme.*''
           then (files_in [(''dev'', ''999:9'')] names, None)
           else if dir = port0_sysfs then (files_in port0_files names, None)
           else (Map.empty, Some (Err_ext ''unable to read file''))),
      EvalSymlinks =
        (\<lambda>p. if p = ''/dev/char/240:0'' then Inr ''/dev/intel-fpga-fme.0''
             else Inl (Err_ext ''no such file or directory'')),
      checkPCIDeviceType_FME = (\<lambda>f. (None, f)),
      checkPCIDeviceType_Port = (\<lambda>f. (None, f))\<rparr>"

text \<open>A machine on which nothing resolves: every helper fails.\<close>

definition env_none :: sysfs where
  "env_none =
     \<lparr>FindSysFsDevice = (\<lambda>dev. Inl (Err_ext ''no sysfs entry'')),
      NewPCIDevice = (\<lambda>p. Inl (Err_ext ''no PCI device'')),
      readFiles = (\<lambda>names dir. (Map.empty, Some (Err_ext ''unable to read file''))),
      EvalSymlinks = (\<lambda>p. Inl (Err_ext ''no such file or directory'')),
      checkPCIDeviceType_FME = (\<lambda>f. (Some (Err_ext ''not an FME''), f)),
      checkPCIDeviceType_Port = (\<lambda>f. (Some (Err_ext ''not a Port''), f))\<rparr>"

text \<open>The FME as \<^verbatim>\<open>NewIntelFpgaFME\<close> leaves it on this machine, and the Port likewise.\<close>

definition fme0 :: IntelFpgaFME where
  "fme0 =
     \<lparr>FME_DevPath = ''/dev/intel-fpga-fme.0'', FME_SysFsPath = fme0_sysfs, FME_Name = [],
      FME_PCIDevice = Some pf0, FME_SocketID = ''0'', FME_Dev = ''240:0'',
      FME_CompatID = ''ce489693-98f0-5f33-946d-560708be108a'',
      FME_BitstreamID = ''0x23000410010310'', FME_BitstreamMetadata = ''0x1612156'',
      FME_PortsNum = ''1''\<rparr>"

definition port0 :: IntelFpgaPort where
  "port0 =
     \<lparr>Port_FME = None, Port_DevPath = ''/dev/intel-fpga-port.0'',
      Port_SysFsPath = port0_sysfs, Port_Name = [], Port_PCIDevice = None,
      Port_Dev = ''240:1'', Port_AFUID = ''d8424dc4-a4a3-c413-f89e-433683f9040b'',
      Port_ID = ''0''\<rparr>"

text \<open>Byte sizes of the five structures, as an example of the parameter.\<close>

definition abi0 :: abi where
  "abi0 =
     \<lparr>sizeof_FmePortPR = 24, sizeof_FmePortRelease = 12, sizeof_FmePortAssign = 12,
      sizeof_PortInfo = 16, sizeof_PortRegionInfo = 32\<rparr>"

text \<open>
  Drivers: one that accepts every request, and one that refuses the request code given
  with \<^verbatim>\<open>EBUSY\<close> (16) and accepts the others.
\<close>

definition drv_ok :: driver where
  "drv_ok log dev op arg = (0, arg, None)"

definition drv_refusing :: "ioctl_op \<Rightarrow> driver" where
  "drv_refusing bad log dev op arg = (0, arg, if op = bad then Some (Errno 16) else None)"

definition bitstream0 :: byte_slice where
  "bitstream0 = \<lparr>slice_addr = 0xC000100000, slice_data = [0x58, 0x65, 0x6F, 0x6E]\<rparr>"

definition empty_bitstream :: byte_slice where
  "empty_bitstream = \<lparr>slice_addr = 0, slice_data = []\<rparr>"

subsection \<open>Predicates on the log\<close>

text \<open>The events a call added to the log it was given.\<close>

definition issued :: "event list \<Rightarrow> event list \<Rightarrow> event list" where
  "issued log log1 = drop (length log) log1"

text \<open>
  An ioctl request carries its size header when its argument is a structure whose first
  field holds the byte size of that structure; a request with the argument 0 carries none.
\<close>

definition size_header_set :: "abi \<Rightarrow> event \<Rightarrow> bool" where
  "size_header_set sz ev =
     (case ev of
        Ev_FME_Close dev \<Rightarrow> True
      | Ev_ioctl dev op arg \<Rightarrow>
          (case arg of
             Arg_null \<Rightarrow> False
           | Arg_FmePortPR v \<Rightarrow> PR_Argsz v = word_of_nat (sizeof_FmePortPR sz)
           | Arg_FmePortRelease v \<Rightarrow> Release_Argsz v = word_of_nat (sizeof_FmePortRelease sz)
           | Arg_FmePortAssign v \<Rightarrow> Assign_Argsz v = word_of_nat (sizeof_FmePortAssign sz)
           | Arg_PortInfo v \<Rightarrow> Info_Argsz v = word_of_nat (sizeof_PortInfo sz)
           | Arg_PortRegionInfo v \<Rightarrow> Region_Argsz v = word_of_nat (sizeof_PortRegionInfo sz)))"

subsection \<open>Objects and requests of the examples\<close>

text \<open>The two objects as the constructors build them, before anything is resolved.\<close>

definition fresh_fme0 :: IntelFpgaFME where
  "fresh_fme0 = new_FME ''/dev/intel-fpga-fme.0''"

definition fresh_port0 :: IntelFpgaPort where
  "fresh_port0 = new_Port ''/dev/intel-fpga-port.0''"

text \<open>The Port after \<^verbatim>\<open>GetFME\<close> resolved its FME.\<close>

definition port0_resolved :: IntelFpgaPort where
  "port0_resolved = port0\<lparr>Port_FME := Some fme0, Port_PCIDevice := Some vf0\<rparr>"

text \<open>Objects whose stored attribute strings are not numbers of 32 bits.\<close>

definition fme_bad :: IntelFpgaFME where
  "fme_bad = fme0\<lparr>FME_PortsNum := ''1x'', FME_SocketID := ''-1''\<rparr>"

definition port_bad :: IntelFpgaPort where
  "port_bad = port0\<lparr>Port_ID := ''4294967296''\<rparr>"

text \<open>
  The three requests of a reconfiguration as they appear in the log, and the error the
  driver answers to a request after a given log.
\<close>

definition release_request :: "abi \<Rightarrow> IntelFpgaFME \<Rightarrow> uint32 \<Rightarrow> event" where
  "release_request sz fme portId =
     Ev_ioctl (FME_DevPath fme) FPGA_FME_PORT_RELEASE
       (Arg_FmePortRelease
         \<lparr>Release_Argsz = word_of_nat (sizeof_FmePortRelease sz), Release_Id = portId\<rparr>)"

definition pr_request :: "abi \<Rightarrow> IntelFpgaFME \<Rightarrow> uint32 \<Rightarrow> byte_slice \<Rightarrow> event" where
  "pr_request sz fme portId bs =
     Ev_ioctl (FME_DevPath fme) FPGA_FME_PORT_PR
       (Arg_FmePortPR
         \<lparr>PR_Argsz = word_of_nat (sizeof_FmePortPR sz), PR_Port_id = portId,
          PR_Buffer_size = word_of_nat (length (slice_data bs)),
          PR_Buffer_address = slice_addr bs\<rparr>)"

definition assign_request :: "abi \<Rightarrow> IntelFpgaFME \<Rightarrow> uint32 \<Rightarrow> event" where
  "assign_request sz fme portId =
     Ev_ioctl (FME_DevPath fme) FPGA_FME_PORT_ASSIGN
       (Arg_FmePortAssign
         \<lparr>Assign_Argsz = word_of_nat (sizeof_FmePortAssign sz), Assign_Id = portId\<rparr>)"

definition driver_error :: "driver \<Rightarrow> event list \<Rightarrow> event \<Rightarrow> error option" where
  "driver_error drv log ev =
     (case ev of
        Ev_ioctl dev op arg \<Rightarrow> snd (snd (drv log dev op arg))
      | Ev_FME_Close dev \<Rightarrow> None)"

text \<open>
  The memoized fields of an object are kept from one state of the object to a later one:
  a field that is set has the same value later.
\<close>

definition FME_caches_kept :: "IntelFpgaFME \<Rightarrow> IntelFpgaFME \<Rightarrow> bool" where
  "FME_caches_kept f f1 =
     ((FME_SysFsPath f \<noteq> [] \<longrightarrow> FME_SysFsPath f1 = FME_SysFsPath f)
      \<and> (FME_Name f \<noteq> [] \<longrightarrow> FME_Name f1 = FME_Name f)
      \<and> (FME_PCIDevice f \<noteq> None \<longrightarrow> FME_PCIDevice f1 = FME_PCIDevice f))"

definition Port_caches_kept :: "IntelFpgaPort \<Rightarrow> IntelFpgaPort \<Rightarrow> bool" where
  "Port_caches_kept f f1 =
     ((Port_SysFsPath f \<noteq> [] \<longrightarrow> Port_SysFsPath f1 = Port_SysFsPath f)
      \<and> (Port_Name f \<noteq> [] \<longrightarrow> Port_Name f1 = Port_Name f)
      \<and> (Port_PCIDevice f \<noteq> None \<longrightarrow> Port_PCIDevice f1 = Port_PCIDevice f)
      \<and> (Port_FME f \<noteq> None \<longrightarrow> Port_FME f1 = Port_FME f))"

section \<open>Properties\<close>

subsection \<open>Library functions\<close>

lemma Base_not_empty: "Base p \<noteq> []"
  by (simp add: Base_def Let_def)

lemma parse_loop_bound:
  "parse_loop maxVal n s = (m, None) \<Longrightarrow> n \<le> maxVal \<Longrightarrow> m \<le> maxVal"
proof (induction s arbitrary: n)
  case Nil
  then show ?case by simp
next
  case (Cons c cs)
  then show ?case
    by (auto simp: Let_def split: if_splits)
qed

lemma ParseUint10_bound: "ParseUint10 s 32 = (m, None) \<Longrightarrow> m < 2 ^ 32"
  using parse_loop_bound [of "2 ^ 32 - 1" 0 s m]
  by (auto simp: ParseUint10_def split: if_splits)

lemma ParseUint10_unat:
  "ParseUint10 s 32 = (m, None) \<Longrightarrow> unat (word_of_nat m :: uint32) = m"
  by (drule ParseUint10_bound) (simp add: unat_of_nat)

lemma ParseUint10_word_zero:
  "ParseUint10 s 32 = (m, None) \<Longrightarrow> (word_of_nat m :: uint32) = 0 \<Longrightarrow> m = 0"
  using ParseUint10_unat [of s m] by simp

subsection \<open>What each ioctl method adds to the log\<close>

lemma issued_append: "issued log (log @ evs) = evs"
  by (simp add: issued_def)

lemma PortPR_log:
  "snd (FME_PortPR sz drv f port bs log) =
     log @ (if slice_data bs = [] then []
            else [Ev_ioctl (FME_DevPath f) FPGA_FME_PORT_PR
                   (Arg_FmePortPR
                     \<lparr>PR_Argsz = word_of_nat (sizeof_FmePortPR sz), PR_Port_id = port,
                      PR_Buffer_size = word_of_nat (length (slice_data bs)),
                      PR_Buffer_address = slice_addr bs\<rparr>)])"
  by (simp add: FME_PortPR_def ioctlDev_def Let_def split: prod.splits)

lemma PortRelease_log:
  "snd (FME_PortRelease sz drv f port log) =
     log @ [Ev_ioctl (FME_DevPath f) FPGA_FME_PORT_RELEASE
             (Arg_FmePortRelease
               \<lparr>Release_Argsz = word_of_nat (sizeof_FmePortRelease sz), Release_Id = port\<rparr>)]"
  by (simp add: FME_PortRelease_def ioctlDev_def Let_def split: prod.splits)

lemma PortAssign_log:
  "snd (FME_PortAssign sz drv f port log) =
     log @ [Ev_ioctl (FME_DevPath f) FPGA_FME_PORT_ASSIGN
             (Arg_FmePortAssign
               \<lparr>Assign_Argsz = word_of_nat (sizeof_FmePortAssign sz), Assign_Id = port\<rparr>)]"
  by (simp add: FME_PortAssign_def ioctlDev_def Let_def split: prod.splits)

lemma PortGetInfo_log:
  "snd (Port_PortGetInfo sz drv f log) =
     log @ [Ev_ioctl (Port_DevPath f) FPGA_PORT_GET_INFO
             (Arg_PortInfo
               \<lparr>Info_Argsz = word_of_nat (sizeof_PortInfo sz), Info_Flags = 0,
                Info_Regions = 0, Info_Umsgs = 0\<rparr>)]"
  by (simp add: Port_PortGetInfo_def ioctlDev_def Let_def split: prod.splits option.splits)

lemma PortGetRegionInfo_log:
  "snd (Port_PortGetRegionInfo sz drv f index log) =
     log @ [Ev_ioctl (Port_DevPath f) FPGA_PORT_GET_REGION_INFO
             (Arg_PortRegionInfo
               \<lparr>Region_Argsz = word_of_nat (sizeof_PortRegionInfo sz), Region_Flags = 0,
                Region_Index = index, Region_Size = 0, Region_Offset = 0\<rparr>)]"
  by (simp add: Port_PortGetRegionInfo_def ioctlDev_def Let_def
           split: prod.splits option.splits)

lemma PortReset_log:
  "snd (Port_PortReset drv f log) = log @ [Ev_ioctl (Port_DevPath f) FPGA_PORT_RESET Arg_null]"
  by (simp add: Port_PortReset_def ioctlDev_def split: prod.splits)

lemma GetAPIVersion_log:
  "snd (commonIntelFpgaGetAPIVersion drv fd log) =
     log @ [Ev_ioctl fd FPGA_GET_API_VERSION Arg_null]"
  by (simp add: commonIntelFpgaGetAPIVersion_def ioctlDev_def split: prod.splits)

lemma CheckExtension_log:
  "snd (commonIntelFpgaCheckExtension drv fd log) =
     log @ [Ev_ioctl fd FPGA_CHECK_EXTENSION Arg_null]"
  by (simp add: commonIntelFpgaCheckExtension_def ioctlDev_def split: prod.splits)

subsection \<open>PortPR on an empty bitstream\<close>

text \<open>
  C1. The claim: \<^verbatim>\<open>PortPR\<close> with a zero-length bitstream fails with the empty-payload
  error, before any ioctl. What the code does: with a bitstream of length zero,
  \<^verbatim>\<open>&bitstream[0]\<close> panics with an index out of range; no error value is returned, and
  the log is left as it was, so no ioctl was issued.
\<close>

theorem PortPR_empty_bitstream_panics:
  "slice_data bs = [] \<Longrightarrow>
     FME_PortPR sz drv f port bs log = (Inl (IndexOutOfRange 0 0), log)"
  by (simp add: FME_PortPR_def)

theorem PortPR_empty_bitstream_panics_witness:
  "slice_data empty_bitstream = []
   \<and> FME_PortPR abi0 drv_ok fme0 0 empty_bitstream [] = (Inl (IndexOutOfRange 0 0), [])"
  using PortPR_empty_bitstream_panics [of empty_bitstream abi0 drv_ok fme0 0 "[]"]
  by (simp add: empty_bitstream_def)

subsection \<open>The size header of the requests\<close>

text \<open>
  C2, as claimed: every ioctl request of this layer, the zero-payload ones included, is a
  structure whose first field is set to its byte size. It fails on \<^verbatim>\<open>PortReset\<close>:
  the request it issues has the argument 0, no structure and no header.
\<close>

theorem PortReset_size_header_counterexample:
  "\<not> list_all (size_header_set abi0) (issued [] (snd (Port_PortReset drv_ok port0 [])))"
  by (simp add: PortReset_log issued_def size_header_set_def)

text \<open>
  C2, amended: the five requests that pass a structure (\<^verbatim>\<open>PortPR\<close>, \<^verbatim>\<open>PortRelease\<close>,
  \<^verbatim>\<open>PortAssign\<close>, \<^verbatim>\<open>PortGetInfo\<close>, \<^verbatim>\<open>PortGetRegionInfo\<close>) have its first field set to
  the byte size of the structure when the ioctl is issued (\<^verbatim>\<open>PortPR\<close> on an empty
  bitstream issues none); \<^verbatim>\<open>GetAPIVersion\<close>, \<^verbatim>\<open>CheckExtension\<close> and
  \<^verbatim>\<open>PortReset\<close> issue one request each, with the argument 0.
\<close>

theorem size_header_of_requests:
  "list_all (size_header_set sz) (issued log (snd (FME_PortPR sz drv f port bs log)))
   \<and> list_all (size_header_set sz) (issued log (snd (FME_PortRelease sz drv f port log)))
   \<and> list_all (size_header_set sz) (issued log (snd (FME_PortAssign sz drv f port log)))
   \<and> list_all (size_header_set sz) (issued log (snd (Port_PortGetInfo sz drv p log)))
   \<and> list_all (size_header_set sz)
        (issued log (snd (Port_PortGetRegionInfo sz drv p index log)))
   \<and> issued log (snd (commonIntelFpgaGetAPIVersion drv fd log)) =
        [Ev_ioctl fd FPGA_GET_API_VERSION Arg_null]
   \<and> issued log (snd (commonIntelFpgaCheckExtension drv fd log)) =
        [Ev_ioctl fd FPGA_CHECK_EXTENSION Arg_null]
   \<and> issued log (snd (Port_PortReset drv p log)) =
        [Ev_ioctl (Port_DevPath p) FPGA_PORT_RESET Arg_null]"
  by (simp add: PortPR_log PortRelease_log PortAssign_log PortGetInfo_log
        PortGetRegionInfo_log GetAPIVersion_log CheckExtension_log PortReset_log
        issued_append size_header_set_def)

theorem size_header_of_requests_witness:
  "list_all (size_header_set abi0)
     (issued [] (snd (FME_PortPR abi0 drv_ok fme0 0 bitstream0 [])))
   \<and> issued [] (snd (FME_PortPR abi0 drv_ok fme0 0 bitstream0 [])) =
       [Ev_ioctl ''/dev/intel-fpga-fme.0'' FPGA_FME_PORT_PR
         (Arg_FmePortPR \<lparr>PR_Argsz = 24, PR_Port_id = 0, PR_Buffer_size = 4,
            PR_Buffer_address = 0xC000100000\<rparr>)]
   \<and> issued [] (snd (Port_PortReset drv_ok port0 [])) =
        [Ev_ioctl ''/dev/intel-fpga-port.0'' FPGA_PORT_RESET Arg_null]"
  using size_header_of_requests
    [of abi0 "[]" drv_ok fme0 0 bitstream0 port0 0 "''/dev/intel-fpga-port.0''"]
  by (simp add: PortPR_log issued_def bitstream0_def abi0_def fme0_def port0_def)

subsection \<open>The concrete machine, evaluated\<close>

lemma ParseUint10_0: "ParseUint10 ''0'' 32 = (0, None)"
  by (simp add: ParseUint10_def cutoff10_def)

lemma ParseUint10_1: "ParseUint10 ''1'' 32 = (1, None)"
  by (simp add: ParseUint10_def cutoff10_def)

lemma ParseUint10_1x: "ParseUint10 ''1x'' 32 = (0, Some ErrSyntax)"
  by (simp add: ParseUint10_def cutoff10_def)

lemma ParseUint10_minus: "ParseUint10 ''-1'' 32 = (0, Some ErrSyntax)"
  by (simp add: ParseUint10_def cutoff10_def)

lemma ParseUint10_2_32: "ParseUint10 ''4294967296'' 32 = (4294967295, Some ErrRange)"
  by (simp add: ParseUint10_def cutoff10_def)

lemma Join_pf0:
  "Join [''/sys/pf'', intelFpgaFmeGlobPCI] = ''/sys/pf/fpga/intel-fpga-dev.*/intel-fpga-fme.*''"
  by (simp add: Join_def Clean_def intelFpgaFmeGlobPCI_def is_sep_def)

lemma Join_vf0:
  "Join [''/sys/vf'', intelFpgaFmeGlobPCI] = ''/sys/vf/fpga/intel-fpga-dev.*/intel-fpga-fme.*''"
  by (simp add: Join_def Clean_def intelFpgaFmeGlobPCI_def is_sep_def)

lemma Join_dev0: "Join [''/dev/char'', ''240:0''] = ''/dev/char/240:0''"
  by (simp add: Join_def Clean_def is_sep_def)

lemma Base_fme0: "Base fme0_sysfs = ''intel-fpga-fme.0''"
  by (simp add: Base_def fme0_sysfs_def is_sep_def)

lemma Base_port0: "Base port0_sysfs = ''intel-fpga-port.0''"
  by (simp add: Base_def port0_sysfs_def is_sep_def)

lemma fme0_sysfs_not_empty: "fme0_sysfs \<noteq> []"
  by (simp add: fme0_sysfs_def)

lemma port0_sysfs_not_empty: "port0_sysfs \<noteq> []"
  by (simp add: port0_sysfs_def)

lemma fresh_fme0_fields:
  "FME_DevPath fresh_fme0 = ''/dev/intel-fpga-fme.0''" "FME_SysFsPath fresh_fme0 = []"
  "FME_Name fresh_fme0 = []" "FME_PCIDevice fresh_fme0 = None"
  "FME_SocketID fresh_fme0 = []" "FME_CompatID fresh_fme0 = []"
  "FME_BitstreamID fresh_fme0 = []" "FME_BitstreamMetadata fresh_fme0 = []"
  "FME_PortsNum fresh_fme0 = []"
  by (simp_all add: fresh_fme0_def new_FME_def)

lemma fresh_port0_fields:
  "Port_DevPath fresh_port0 = ''/dev/intel-fpga-port.0''" "Port_SysFsPath fresh_port0 = []"
  "Port_Name fresh_port0 = []" "Port_PCIDevice fresh_port0 = None"
  "Port_FME fresh_port0 = None" "Port_ID fresh_port0 = []"
  by (simp_all add: fresh_port0_def new_Port_def)

lemma fresh_fme0_GetSysFsPath:
  "FME_GetSysFsPath env0 fresh_fme0 = (fme0_sysfs, fresh_fme0\<lparr>FME_SysFsPath := fme0_sysfs\<rparr>)"
  by (simp add: FME_GetSysFsPath_def fresh_fme0_fields env0_def)

lemma fresh_port0_GetSysFsPath:
  "Port_GetSysFsPath env0 fresh_port0 =
     (port0_sysfs, fresh_port0\<lparr>Port_SysFsPath := port0_sysfs\<rparr>)"
  by (simp add: Port_GetSysFsPath_def fresh_port0_fields env0_def)

lemma fresh_fme0_GetName:
  "FME_GetName env0 fresh_fme0 =
     (''intel-fpga-fme.0'',
      fresh_fme0\<lparr>FME_SysFsPath := fme0_sysfs, FME_Name := ''intel-fpga-fme.0''\<rparr>)"
  by (simp add: FME_GetName_def fresh_fme0_fields fresh_fme0_GetSysFsPath Base_fme0)

lemma fresh_port0_GetName:
  "Port_GetName env0 fresh_port0 =
     (''intel-fpga-port.0'',
      fresh_port0\<lparr>Port_SysFsPath := port0_sysfs, Port_Name := ''intel-fpga-port.0''\<rparr>)"
  by (simp add: Port_GetName_def fresh_port0_fields fresh_port0_GetSysFsPath Base_port0)

lemma fresh_fme0_GetPCIDevice:
  "FME_GetPCIDevice env0 fresh_fme0 =
     (Inr pf0, fresh_fme0\<lparr>FME_SysFsPath := fme0_sysfs, FME_PCIDevice := Some pf0\<rparr>)"
proof -
  have "NewPCIDevice env0 fme0_sysfs = Inr pf0"
    by (simp add: env0_def fme0_sysfs_def port0_sysfs_def)
  then show ?thesis
    by (simp add: FME_GetPCIDevice_def fresh_fme0_fields fresh_fme0_GetSysFsPath)
qed

lemma fresh_port0_GetPCIDevice:
  "Port_GetPCIDevice env0 fresh_port0 =
     (Inr vf0, fresh_port0\<lparr>Port_SysFsPath := port0_sysfs, Port_PCIDevice := Some vf0\<rparr>)"
proof -
  have "NewPCIDevice env0 port0_sysfs = Inr vf0"
    by (simp add: env0_def)
  then show ?thesis
    by (simp add: Port_GetPCIDevice_def fresh_port0_fields fresh_port0_GetSysFsPath)
qed

lemma fresh_fme0_update: "FME_updateProperties env0 fresh_fme0 = (None, fme0)"
proof -
  have "readFiles env0 FME_fileNames ''/sys/pf/fpga/intel-fpga-dev.*/intel-fpga-fme.*'' =
          (files_in fme0_files FME_fileNames, None)"
    by (simp add: env0_def)
  then show ?thesis
    by (simp add: FME_updateProperties_def fresh_fme0_GetPCIDevice pf0_def Join_pf0)
       (simp add: FME_fileNames_def files_in_def fme0_files_def stored_def fme0_def
          fresh_fme0_def new_FME_def pf0_def)
qed

lemma fresh_fme0_update_fails:
  "FME_updateProperties env_none fresh_fme0 = (Some (Err_ext ''no PCI device''), fresh_fme0)"
  by (simp add: FME_updateProperties_def FME_GetPCIDevice_def FME_GetSysFsPath_def
        fresh_fme0_fields env_none_def)

lemma NewIntelFpgaFME_env0: "NewIntelFpgaFME env0 ''/dev/intel-fpga-fme.0'' = Inr fme0"
proof -
  have "checkPCIDeviceType_FME env0 (new_FME ''/dev/intel-fpga-fme.0'') =
          (None, fresh_fme0)"
    by (simp add: env0_def fresh_fme0_def)
  then show ?thesis
    by (simp add: NewIntelFpgaFME_def fresh_fme0_update)
qed

lemma port0_GetPCIDevice:
  "Port_GetPCIDevice env0 port0 = (Inr vf0, port0\<lparr>Port_PCIDevice := Some vf0\<rparr>)"
  by (simp add: Port_GetPCIDevice_def Port_GetSysFsPath_def port0_def env0_def
        port0_sysfs_def)

lemma readFiles_dev_pf0:
  "readFiles env0 [''dev''] ''/sys/pf/fpga/intel-fpga-dev.*/intel-fpga-fme.*'' =
     ([''dev'' \<mapsto> ''240:0''], None)"
  by (simp add: env0_def files_in_def fme0_files_def)

lemma readFiles_dev_vf0:
  "readFiles env0 [''dev''] ''/sys/vf/fpga/intel-fpga-dev.*/intel-fpga-fme.*'' =
     ([''dev'' \<mapsto> ''999:9''], None)"
  by (simp add: env0_def files_in_def)

lemma EvalSymlinks_dev0:
  "EvalSymlinks env0 ''/dev/char/240:0'' = Inr ''/dev/intel-fpga-fme.0''"
  by (simp add: env0_def)

lemma port0_GetFME: "Port_GetFME env0 port0 = (Inr fme0, port0_resolved)"
proof -
  have a: "Port_FME port0 = None" by (simp add: port0_def)
  have b: "PhysFn vf0 = Some pf0" "PCI_SysFsPath pf0 = ''/sys/pf''"
    by (simp_all add: vf0_def pf0_def)
  show ?thesis
    by (simp add: Port_GetFME_def a port0_GetPCIDevice b Join_pf0 readFiles_dev_pf0
          stored_def Join_dev0 EvalSymlinks_dev0 NewIntelFpgaFME_env0 port0_resolved_def)
qed

lemma port0_GetPortID: "Port_GetPortID env0 port0_resolved = ((0, None), port0_resolved)"
  by (simp add: Port_GetPortID_def port0_resolved_def port0_def ParseUint10_0)

subsection \<open>The three requests of a reconfiguration\<close>

lemma PortRelease_result:
  "FME_PortRelease sz drv f port log =
     (driver_error drv log (release_request sz f port), log @ [release_request sz f port])"
  by (simp add: FME_PortRelease_def ioctlDev_def release_request_def driver_error_def
        Let_def split: prod.splits)

lemma PortPR_result:
  "slice_data bs \<noteq> [] \<Longrightarrow>
     FME_PortPR sz drv f port bs log =
       (Inr (driver_error drv log (pr_request sz f port bs)), log @ [pr_request sz f port bs])"
  by (simp add: FME_PortPR_def ioctlDev_def pr_request_def driver_error_def
        Let_def split: prod.splits)

lemma PortAssign_result:
  "FME_PortAssign sz drv f port log =
     (driver_error drv log (assign_request sz f port), log @ [assign_request sz f port])"
  by (simp add: FME_PortAssign_def ioctlDev_def assign_request_def driver_error_def
        Let_def split: prod.splits)

subsection \<open>No method resets a memoized field\<close>

lemma FME_GetSysFsPath_keeps: "FME_caches_kept f (snd (FME_GetSysFsPath env f))"
  by (simp add: FME_caches_kept_def FME_GetSysFsPath_def split: sum.splits)

lemma FME_GetName_keeps: "FME_caches_kept f (snd (FME_GetName env f))"
  by (simp add: FME_caches_kept_def FME_GetName_def FME_GetSysFsPath_def
        split: sum.splits prod.splits)

lemma FME_GetPCIDevice_keeps: "FME_caches_kept f (snd (FME_GetPCIDevice env f))"
  by (simp add: FME_caches_kept_def FME_GetPCIDevice_def FME_GetSysFsPath_def
        split: sum.splits prod.splits option.splits)

lemma FME_updateProperties_keeps: "FME_caches_kept f (snd (FME_updateProperties env f))"
  using FME_GetPCIDevice_keeps [of f env]
  by (auto simp: FME_caches_kept_def FME_updateProperties_def
        split: sum.splits prod.splits)

lemma FME_GetPortsNum_keeps: "FME_caches_kept f (snd (FME_GetPortsNum env f))"
  using FME_updateProperties_keeps [of f env]
  by (auto simp: FME_GetPortsNum_def FME_caches_kept_def
        split: prod.splits option.splits if_splits)

lemma FME_GetInterfaceUUID_keeps: "FME_caches_kept f (snd (FME_GetInterfaceUUID env f))"
  using FME_updateProperties_keeps [of f env]
  by (auto simp: FME_GetInterfaceUUID_def FME_caches_kept_def
        split: prod.splits option.splits if_splits)

lemma Port_GetSysFsPath_keeps: "Port_caches_kept f (snd (Port_GetSysFsPath env f))"
  by (simp add: Port_caches_kept_def Port_GetSysFsPath_def split: sum.splits)

lemma Port_GetName_keeps: "Port_caches_kept f (snd (Port_GetName env f))"
  by (simp add: Port_caches_kept_def Port_GetName_def Port_GetSysFsPath_def
        split: sum.splits prod.splits)

lemma Port_GetPCIDevice_keeps: "Port_caches_kept f (snd (Port_GetPCIDevice env f))"
  by (simp add: Port_caches_kept_def Port_GetPCIDevice_def Port_GetSysFsPath_def
        split: sum.splits prod.splits option.splits)

lemma Port_GetFME_keeps: "Port_caches_kept f (snd (Port_GetFME env f))"
proof (cases "Port_FME f")
  case (Some fme)
  then show ?thesis by (simp add: Port_GetFME_def Port_caches_kept_def)
next
  case None
  with Port_GetPCIDevice_keeps [of f env] show ?thesis
    by (auto simp: Port_GetFME_def Port_caches_kept_def Let_def
          split: prod.splits sum.splits option.splits)
qed

lemma Port_updateProperties_keeps: "Port_caches_kept f (snd (Port_updateProperties env f))"
  using Port_GetSysFsPath_keeps [of f env]
  by (auto simp: Port_caches_kept_def Port_updateProperties_def split: prod.splits)

lemma Port_GetPortID_keeps: "Port_caches_kept f (snd (Port_GetPortID env f))"
  using Port_updateProperties_keeps [of f env]
  by (auto simp: Port_GetPortID_def Port_caches_kept_def
        split: prod.splits option.splits if_splits)

lemma Port_GetAcceleratorTypeUUID_keeps:
  "Port_caches_kept f (snd (Port_GetAcceleratorTypeUUID env f))"
  using Port_updateProperties_keeps [of f env]
  by (auto simp: Port_GetAcceleratorTypeUUID_def Port_caches_kept_def
        split: prod.splits option.splits if_splits)

subsection \<open>FME accessors and the sysfs read\<close>

text \<open>
  C3, as claimed: on an FME whose attribute fields are not populated, each of
  \<^verbatim>\<open>GetInterfaceUUID\<close>, \<^verbatim>\<open>GetBitstreamID\<close>, \<^verbatim>\<open>GetBitstreamMetadata\<close>,
  \<^verbatim>\<open>GetSocketID\<close> and \<^verbatim>\<open>GetPortsNum\<close> reads the attributes before it returns. It
  fails on a fresh FME of the concrete machine: reading the attributes succeeds there and
  gives a bitstream id, metadata and the socket id 0, yet \<^verbatim>\<open>GetBitstreamID\<close> and
  \<^verbatim>\<open>GetBitstreamMetadata\<close> return the empty string and \<^verbatim>\<open>GetSocketID\<close> the error
  \<^verbatim>\<open>n/a\<close>.
\<close>

theorem FME_accessors_read_counterexample:
  "FME_BitstreamID fresh_fme0 = [] \<and> FME_BitstreamMetadata fresh_fme0 = []
   \<and> FME_SocketID fresh_fme0 = []
   \<and> FME_updateProperties env0 fresh_fme0 = (None, fme0)
   \<and> FME_BitstreamID fme0 = ''0x23000410010310''
   \<and> FME_BitstreamMetadata fme0 = ''0x1612156''
   \<and> FME_SocketID fme0 = ''0''
   \<and> FME_GetBitstreamID fresh_fme0 = []
   \<and> FME_GetBitstreamMetadata fresh_fme0 = []
   \<and> FME_GetSocketID fresh_fme0 = (MaxUint32, Some Err_na)"
  by (simp add: fresh_fme0_update fresh_fme0_fields FME_GetBitstreamID_def
        FME_GetBitstreamMetadata_def FME_GetSocketID_def)
     (simp add: fme0_def)

text \<open>
  C3, amended: \<^verbatim>\<open>GetInterfaceUUID\<close> and \<^verbatim>\<open>GetPortsNum\<close> read the attributes when
  their own field is empty, and return the empty string and \<open>- 1\<close> when that read fails;
  with the field set they read nothing (\<^verbatim>\<open>GetInterfaceUUID\<close> returns the field,
  \<^verbatim>\<open>GetPortsNum\<close> leaves the object as it is). \<^verbatim>\<open>GetBitstreamID\<close> and
  \<^verbatim>\<open>GetBitstreamMetadata\<close> return the stored field and never read. \<^verbatim>\<open>GetSocketID\<close>
  never reads either: on an empty field it returns \<^verbatim>\<open>math.MaxUint32\<close> with the error
  \<^verbatim>\<open>n/a\<close>.
\<close>

theorem FME_accessors_reads:
  "(FME_CompatID f = [] \<longrightarrow>
      FME_GetInterfaceUUID env f =
        (case FME_updateProperties env f of
           (Some err, f1) \<Rightarrow> ([], f1)
         | (None, f1) \<Rightarrow> (FME_CompatID f1, f1)))
   \<and> (FME_CompatID f \<noteq> [] \<longrightarrow> FME_GetInterfaceUUID env f = (FME_CompatID f, f))
   \<and> (FME_PortsNum f = [] \<longrightarrow>
      FME_GetPortsNum env f =
        (case FME_updateProperties env f of
           (Some err, f1) \<Rightarrow> (- 1, f1)
         | (None, f1) \<Rightarrow>
             (case ParseUint10 (FME_PortsNum f1) 32 of
                (n, Some err) \<Rightarrow> (- 1, f1)
              | (n, None) \<Rightarrow> (int n, f1))))
   \<and> (FME_PortsNum f \<noteq> [] \<longrightarrow> snd (FME_GetPortsNum env f) = f)
   \<and> FME_GetBitstreamID f = FME_BitstreamID f
   \<and> FME_GetBitstreamMetadata f = FME_BitstreamMetadata f
   \<and> (FME_SocketID f = [] \<longrightarrow> FME_GetSocketID f = (MaxUint32, Some Err_na))"
  by (simp add: FME_GetInterfaceUUID_def FME_GetPortsNum_def FME_GetBitstreamID_def
        FME_GetBitstreamMetadata_def FME_GetSocketID_def split: prod.splits option.splits)

theorem FME_accessors_reads_witness:
  "FME_CompatID fresh_fme0 = [] \<and> FME_PortsNum fresh_fme0 = []
   \<and> FME_GetInterfaceUUID env0 fresh_fme0 = (''ce489693-98f0-5f33-946d-560708be108a'', fme0)
   \<and> FME_GetInterfaceUUID env_none fme0 = (''ce489693-98f0-5f33-946d-560708be108a'', fme0)
   \<and> FME_GetPortsNum env0 fresh_fme0 = (1, fme0)
   \<and> FME_GetInterfaceUUID env_none fresh_fme0 = ([], fresh_fme0)
   \<and> FME_GetPortsNum env_none fresh_fme0 = (- 1, fresh_fme0)
   \<and> FME_GetSocketID fresh_fme0 = (MaxUint32, Some Err_na)"
proof -
  have d: "FME_CompatID fme0 = ''ce489693-98f0-5f33-946d-560708be108a''"
    "FME_PortsNum fme0 = ''1''"
    by (simp_all add: fme0_def)
  show ?thesis
    using FME_accessors_reads [of fresh_fme0 env0] FME_accessors_reads [of fme0 env_none]
      FME_accessors_reads [of fresh_fme0 env_none]
    by (simp add: fresh_fme0_update fresh_fme0_update_fails fresh_fme0_fields d
          ParseUint10_1)
qed

subsection \<open>The socket id\<close>

text \<open>
  C4. With an empty \<^verbatim>\<open>SocketID\<close> field, \<^verbatim>\<open>GetSocketID\<close> returns \<^verbatim>\<open>math.MaxUint32\<close>
  (which is not zero) together with the error \<^verbatim>\<open>n/a\<close>. It returns zero without an
  error only when the stored string parses to zero.
\<close>

theorem GetSocketID_unset_not_zero:
  "(FME_SocketID f = [] \<longrightarrow>
      FME_GetSocketID f = (MaxUint32, Some Err_na) \<and> fst (FME_GetSocketID f) \<noteq> 0)
   \<and> (FME_GetSocketID f = (0, None) \<longrightarrow> ParseUint10 (FME_SocketID f) 32 = (0, None))"
proof (intro conjI impI)
  assume "FME_SocketID f = []"
  then show "FME_GetSocketID f = (MaxUint32, Some Err_na)"
    by (simp add: FME_GetSocketID_def)
next
  assume "FME_SocketID f = []"
  then show "fst (FME_GetSocketID f) \<noteq> 0"
    by (simp add: FME_GetSocketID_def MaxUint32_def)
next
  assume a: "FME_GetSocketID f = (0, None)"
  obtain m e where p: "ParseUint10 (FME_SocketID f) 32 = (m, e)"
    by (cases "ParseUint10 (FME_SocketID f) 32")
  from a p have ne: "e = None" and z: "(word_of_nat m :: uint32) = 0"
    by (auto simp: FME_GetSocketID_def split: if_splits)
  from p ne z have "m = 0" by (auto dest: ParseUint10_word_zero)
  with p ne show "ParseUint10 (FME_SocketID f) 32 = (0, None)" by simp
qed

theorem GetSocketID_unset_not_zero_witness:
  "FME_SocketID fresh_fme0 = []
   \<and> FME_GetSocketID fresh_fme0 = (MaxUint32, Some Err_na)
   \<and> FME_GetSocketID fme0 = (0, None)
   \<and> ParseUint10 (FME_SocketID fme0) 32 = (0, None)"
proof -
  have b: "FME_GetSocketID fme0 = (0, None)"
    by (simp add: FME_GetSocketID_def fme0_def ParseUint10_0)
  show ?thesis
    using GetSocketID_unset_not_zero [of fresh_fme0] GetSocketID_unset_not_zero [of fme0] b
    by (simp add: fresh_fme0_fields)
qed

subsection \<open>The order of a reconfiguration\<close>

text \<open>
  With a bitstream that has bytes: once the FME and the port id are resolved, a \<^verbatim>\<open>PR\<close>
  that is not a dry run issues the release, the PR and the assign request for that port
  id, in this order. The first request the driver refuses ends the sequence: the log
  holds the requests up to that one and no later one, and the result names the step and
  carries the driver's error.
\<close>

lemma Port_PR_sequence:
  assumes "Port_GetFME env f = (Inr fme, f1)"
    and "Port_GetPortID env f1 = ((portId, None), f2)"
    and "slice_data bs \<noteq> []"
  shows "Port_PR env sz drv f bs False log =
     (let r1 = release_request sz fme portId;
          r2 = pr_request sz fme portId bs;
          r3 = assign_request sz fme portId
      in case driver_error drv log r1 of
           Some err \<Rightarrow> (PR_failed Step_Release err, f2, log @ [r1])
         | None \<Rightarrow>
             (case driver_error drv (log @ [r1]) r2 of
                Some err \<Rightarrow> (PR_failed Step_PR err, f2, log @ [r1, r2])
              | None \<Rightarrow>
                  (case driver_error drv (log @ [r1, r2]) r3 of
                     Some err \<Rightarrow> (PR_failed Step_Assign err, f2, log @ [r1, r2, r3])
                   | None \<Rightarrow> (PR_done, f2, log @ [r1, r2, r3]))))"
  using assms
  by (simp add: Port_PR_def genericPortPR_def PortRelease_result PortPR_result
        PortAssign_result Let_def split: option.splits)

lemma Port_PR_sequence_examples:
  "Port_GetFME env0 port0 = (Inr fme0, port0_resolved)
   \<and> Port_GetPortID env0 port0_resolved = ((0, None), port0_resolved)
   \<and> slice_data bitstream0 \<noteq> []
   \<and> Port_PR env0 abi0 drv_ok port0 bitstream0 False [] =
       (PR_done, port0_resolved,
        [release_request abi0 fme0 0, pr_request abi0 fme0 0 bitstream0,
         assign_request abi0 fme0 0])
   \<and> Port_PR env0 abi0 (drv_refusing FPGA_FME_PORT_RELEASE) port0 bitstream0 False [] =
       (PR_failed Step_Release (Errno 16), port0_resolved, [release_request abi0 fme0 0])
   \<and> Port_PR env0 abi0 (drv_refusing FPGA_FME_PORT_PR) port0 bitstream0 False [] =
       (PR_failed Step_PR (Errno 16), port0_resolved,
        [release_request abi0 fme0 0, pr_request abi0 fme0 0 bitstream0])
   \<and> Port_PR env0 abi0 (drv_refusing FPGA_FME_PORT_ASSIGN) port0 bitstream0 False [] =
       (PR_failed Step_Assign (Errno 16), port0_resolved,
        [release_request abi0 fme0 0, pr_request abi0 fme0 0 bitstream0,
         assign_request abi0 fme0 0])"
proof -
  have b: "slice_data bitstream0 \<noteq> []" by (simp add: bitstream0_def)
  note t = Port_PR_sequence [OF port0_GetFME port0_GetPortID b]
  show ?thesis
    using t [of abi0 drv_ok "[]"] t [of abi0 "drv_refusing FPGA_FME_PORT_RELEASE" "[]"]
      t [of abi0 "drv_refusing FPGA_FME_PORT_PR" "[]"]
      t [of abi0 "drv_refusing FPGA_FME_PORT_ASSIGN" "[]"]
    by (simp add: port0_GetFME port0_GetPortID b driver_error_def drv_ok_def
          drv_refusing_def release_request_def pr_request_def assign_request_def Let_def)
qed



subsection \<open>Closing a Port\<close>

text \<open>
  C6. \<^verbatim>\<open>Close\<close> of a Port returns no error. With no FME resolved it leaves the log as
  it was; with an FME resolved it adds exactly the \<^verbatim>\<open>Close\<close> of that FME. So it adds
  something to the log if and only if an FME was resolved. The method does not assign to
  the Port.
\<close>

theorem Port_Close_cascade:
  "fst (Port_Close f log) = None
   \<and> (Port_FME f = None \<longrightarrow> snd (Port_Close f log) = log)
   \<and> (\<forall>fme. Port_FME f = Some fme \<longrightarrow>
         snd (Port_Close f log) = log @ [Ev_FME_Close (FME_DevPath fme)])
   \<and> ((issued log (snd (Port_Close f log)) \<noteq> []) = (Port_FME f \<noteq> None))"
  by (auto simp: Port_Close_def FME_Close_def issued_def split: option.splits)

theorem Port_Close_cascade_witness:
  "Port_FME port0 = None \<and> Port_Close port0 [] = (None, [])
   \<and> Port_FME port0_resolved = Some fme0
   \<and> Port_Close port0_resolved [] = (None, [Ev_FME_Close ''/dev/intel-fpga-fme.0''])"
  using Port_Close_cascade [of port0 "[]"] Port_Close_cascade [of port0_resolved "[]"]
  by (simp add: port0_resolved_def port0_def prod_eq_iff) (simp add: fme0_def)

subsection \<open>The FME of a Port on a virtual function\<close>

text \<open>
  C7. On a Port with no FME stored whose PCI device has a physical function, \<^verbatim>\<open>GetFME\<close>
  reads the file \<^verbatim>\<open>dev\<close> in the FME directory below the sysfs path of the physical
  function, resolves the link of that device number below \<^verbatim>\<open>/dev/char\<close>, opens the FME
  at the resolved path, stores it in the Port and returns it.
\<close>

theorem GetFME_physical_function:
  assumes "Port_FME f = None"
    and "Port_GetPCIDevice env f = (Inr vf, f1)"
    and "PhysFn vf = Some pf"
    and "readFiles env [''dev''] (Join [PCI_SysFsPath pf, intelFpgaFmeGlobPCI]) = (vals, None)"
    and "vals ''dev'' = Some dev"
    and "EvalSymlinks env (Join [''/dev/char'', dev]) = Inr realDev"
    and "NewIntelFpgaFME env realDev = Inr fme"
  shows "Port_GetFME env f = (Inr fme, f1\<lparr>Port_FME := Some fme\<rparr>)"
  using assms by (simp add: Port_GetFME_def stored_def)

text \<open>
  On the concrete machine the directory below the virtual function has a \<^verbatim>\<open>dev\<close> file
  as well, with a number that resolves to nothing; the FME found is the one of the
  physical function.
\<close>

theorem GetFME_physical_function_witness:
  "Port_FME port0 = None
   \<and> Port_GetPCIDevice env0 port0 = (Inr vf0, port0\<lparr>Port_PCIDevice := Some vf0\<rparr>)
   \<and> PhysFn vf0 = Some pf0
   \<and> readFiles env0 [''dev''] (Join [PCI_SysFsPath pf0, intelFpgaFmeGlobPCI]) =
       ([''dev'' \<mapsto> ''240:0''], None)
   \<and> readFiles env0 [''dev''] (Join [PCI_SysFsPath vf0, intelFpgaFmeGlobPCI]) =
       ([''dev'' \<mapsto> ''999:9''], None)
   \<and> EvalSymlinks env0 (Join [''/dev/char'', ''240:0'']) = Inr ''/dev/intel-fpga-fme.0''
   \<and> NewIntelFpgaFME env0 ''/dev/intel-fpga-fme.0'' = Inr fme0
   \<and> Port_GetFME env0 port0 =
       (Inr fme0, port0\<lparr>Port_PCIDevice := Some vf0, Port_FME := Some fme0\<rparr>)"
proof -
  have a: "Port_FME port0 = None" by (simp add: port0_def)
  have b: "PhysFn vf0 = Some pf0" by (simp add: vf0_def)
  have c: "readFiles env0 [''dev''] (Join [PCI_SysFsPath pf0, intelFpgaFmeGlobPCI]) =
             ([''dev'' \<mapsto> ''240:0''], None)"
    using readFiles_dev_pf0 by (simp add: pf0_def Join_pf0)
  have cv: "readFiles env0 [''dev''] (Join [PCI_SysFsPath vf0, intelFpgaFmeGlobPCI]) =
             ([''dev'' \<mapsto> ''999:9''], None)"
    using readFiles_dev_vf0 by (simp add: vf0_def Join_vf0)
  have d: "[''dev'' \<mapsto> ''240:0''] ''dev'' = Some ''240:0''" by simp
  have e: "EvalSymlinks env0 (Join [''/dev/char'', ''240:0'']) = Inr ''/dev/intel-fpga-fme.0''"
    using EvalSymlinks_dev0 by (simp add: Join_dev0)
  show ?thesis
    using GetFME_physical_function [OF a port0_GetPCIDevice b c d e NewIntelFpgaFME_env0]
      a port0_GetPCIDevice b c cv e NewIntelFpgaFME_env0
    by simp
qed

subsection \<open>Memoized fields\<close>

text \<open>
  C8. For an FME and for a Port: once \<^verbatim>\<open>GetSysFsPath\<close> returned a path that is not
  empty, once \<^verbatim>\<open>GetName\<close> returned, once \<^verbatim>\<open>GetPCIDevice\<close> returned a device, and
  once \<^verbatim>\<open>GetFME\<close> of a Port returned an FME, the next call of the same accessor on the
  object returns the same value and leaves the object as it is, whatever the helpers
  would answer then (the environment of the second call is arbitrary): the stored value
  is returned and nothing is resolved again.
\<close>

theorem accessors_memoized:
  "(FME_GetSysFsPath env f = (s, f1) \<and> s \<noteq> [] \<longrightarrow> FME_GetSysFsPath env' f1 = (s, f1))
   \<and> (FME_GetName env f = (n, f2) \<longrightarrow> FME_GetName env' f2 = (n, f2))
   \<and> (FME_GetPCIDevice env f = (Inr pci, f3) \<longrightarrow> FME_GetPCIDevice env' f3 = (Inr pci, f3))
   \<and> (Port_GetSysFsPath env p = (s, p1) \<and> s \<noteq> [] \<longrightarrow> Port_GetSysFsPath env' p1 = (s, p1))
   \<and> (Port_GetName env p = (n, p2) \<longrightarrow> Port_GetName env' p2 = (n, p2))
   \<and> (Port_GetPCIDevice env p = (Inr pci, p3) \<longrightarrow>
        Port_GetPCIDevice env' p3 = (Inr pci, p3))
   \<and> (Port_GetFME env p = (Inr fme, p4) \<longrightarrow> Port_GetFME env' p4 = (Inr fme, p4))"
proof (intro conjI impI)
  assume "FME_GetSysFsPath env f = (s, f1) \<and> s \<noteq> []"
  then show "FME_GetSysFsPath env' f1 = (s, f1)"
    by (auto simp: FME_GetSysFsPath_def split: if_splits sum.splits)
next
  assume "FME_GetName env f = (n, f2)"
  then show "FME_GetName env' f2 = (n, f2)"
    by (auto simp: FME_GetName_def Base_not_empty split: if_splits prod.splits)
next
  assume "FME_GetPCIDevice env f = (Inr pci, f3)"
  then show "FME_GetPCIDevice env' f3 = (Inr pci, f3)"
    by (auto simp: FME_GetPCIDevice_def split: option.splits prod.splits sum.splits)
next
  assume "Port_GetSysFsPath env p = (s, p1) \<and> s \<noteq> []"
  then show "Port_GetSysFsPath env' p1 = (s, p1)"
    by (auto simp: Port_GetSysFsPath_def split: if_splits sum.splits)
next
  assume "Port_GetName env p = (n, p2)"
  then show "Port_GetName env' p2 = (n, p2)"
    by (auto simp: Port_GetName_def Base_not_empty split: if_splits prod.splits)
next
  assume "Port_GetPCIDevice env p = (Inr pci, p3)"
  then show "Port_GetPCIDevice env' p3 = (Inr pci, p3)"
    by (auto simp: Port_GetPCIDevice_def split: option.splits prod.splits sum.splits)
next
  assume "Port_GetFME env p = (Inr fme, p4)"
  then show "Port_GetFME env' p4 = (Inr fme, p4)"
    by (auto simp: Port_GetFME_def Let_def split: option.splits prod.splits sum.splits)
qed


theorem accessors_memoized_witness:
  "FME_GetSysFsPath env0 fresh_fme0 = (fme0_sysfs, fresh_fme0\<lparr>FME_SysFsPath := fme0_sysfs\<rparr>)
   \<and> fme0_sysfs \<noteq> []
   \<and> FME_GetSysFsPath env_none (fresh_fme0\<lparr>FME_SysFsPath := fme0_sysfs\<rparr>) =
       (fme0_sysfs, fresh_fme0\<lparr>FME_SysFsPath := fme0_sysfs\<rparr>)
   \<and> FME_GetName env_none
        (fresh_fme0\<lparr>FME_SysFsPath := fme0_sysfs, FME_Name := ''intel-fpga-fme.0''\<rparr>) =
       (''intel-fpga-fme.0'',
        fresh_fme0\<lparr>FME_SysFsPath := fme0_sysfs, FME_Name := ''intel-fpga-fme.0''\<rparr>)
   \<and> FME_GetPCIDevice env_none
        (fresh_fme0\<lparr>FME_SysFsPath := fme0_sysfs, FME_PCIDevice := Some pf0\<rparr>) =
       (Inr pf0, fresh_fme0\<lparr>FME_SysFsPath := fme0_sysfs, FME_PCIDevice := Some pf0\<rparr>)
   \<and> Port_GetSysFsPath env_none (fresh_port0\<lparr>Port_SysFsPath := port0_sysfs\<rparr>) =
       (port0_sysfs, fresh_port0\<lparr>Port_SysFsPath := port0_sysfs\<rparr>)
   \<and> Port_GetName env_none
        (fresh_port0\<lparr>Port_SysFsPath := port0_sysfs, Port_Name := ''intel-fpga-port.0''\<rparr>) =
       (''intel-fpga-port.0'',
        fresh_port0\<lparr>Port_SysFsPath := port0_sysfs, Port_Name := ''intel-fpga-port.0''\<rparr>)
   \<and> Port_GetPCIDevice env_none
        (fresh_port0\<lparr>Port_SysFsPath := port0_sysfs, Port_PCIDevice := Some vf0\<rparr>) =
       (Inr vf0, fresh_port0\<lparr>Port_SysFsPath := port0_sysfs, Port_PCIDevice := Some vf0\<rparr>)
   \<and> Port_GetFME env0 port0 = (Inr fme0, port0_resolved)
   \<and> Port_GetFME env_none port0_resolved = (Inr fme0, port0_resolved)"
  using
    accessors_memoized [where env = env0 and env' = env_none and f = fresh_fme0 and s = fme0_sysfs
          and ?f1.0 = "fresh_fme0\<lparr>FME_SysFsPath := fme0_sysfs\<rparr>"
          and n = "''intel-fpga-fme.0''"
          and ?f2.0 = "fresh_fme0\<lparr>FME_SysFsPath := fme0_sysfs, FME_Name := ''intel-fpga-fme.0''\<rparr>"
          and pci = pf0
          and ?f3.0 = "fresh_fme0\<lparr>FME_SysFsPath := fme0_sysfs, FME_PCIDevice := Some pf0\<rparr>"
          and p = port0 and fme = fme0 and ?p4.0 = port0_resolved]
    accessors_memoized [where env = env0 and env' = env_none and p = fresh_port0 and s = port0_sysfs
          and ?p1.0 = "fresh_port0\<lparr>Port_SysFsPath := port0_sysfs\<rparr>"
          and n = "''intel-fpga-port.0''"
          and ?p2.0 = "fresh_port0\<lparr>Port_SysFsPath := port0_sysfs, Port_Name := ''intel-fpga-port.0''\<rparr>"
          and pci = vf0
          and ?p3.0 = "fresh_port0\<lparr>Port_SysFsPath := port0_sysfs, Port_PCIDevice := Some vf0\<rparr>"]
  by (simp add: fresh_fme0_GetSysFsPath fresh_fme0_GetName fresh_fme0_GetPCIDevice
        fresh_port0_GetSysFsPath fresh_port0_GetName fresh_port0_GetPCIDevice
        port0_GetFME fme0_sysfs_not_empty port0_sysfs_not_empty)

subsection \<open>Numeric conversion of the stored attributes\<close>

text \<open>
  C9. When the stored string does not convert, \<^verbatim>\<open>GetPortsNum\<close> returns \<open>- 1\<close>, and
  \<^verbatim>\<open>GetPortID\<close> and \<^verbatim>\<open>GetSocketID\<close> return an error. \<^verbatim>\<open>GetPortsNum\<close> returns zero
  only when the string converts to zero, and a result of \<^verbatim>\<open>GetPortID\<close> or
  \<^verbatim>\<open>GetSocketID\<close> without an error is the number the string converts to.
\<close>

theorem conversion_failure_reported:
  "(FME_GetPortsNum env f = (r, f1) \<longrightarrow>
      (snd (ParseUint10 (FME_PortsNum f1) 32) \<noteq> None \<longrightarrow> r = - 1)
      \<and> (r = 0 \<longrightarrow> ParseUint10 (FME_PortsNum f1) 32 = (0, None)))
   \<and> (Port_GetPortID env p = ((v, err), p1) \<longrightarrow>
      (snd (ParseUint10 (Port_ID p1) 32) \<noteq> None \<longrightarrow> err \<noteq> None)
      \<and> (err = None \<longrightarrow> ParseUint10 (Port_ID p1) 32 = (unat v, None)))
   \<and> (FME_GetSocketID f = (w, err') \<longrightarrow>
      (snd (ParseUint10 (FME_SocketID f) 32) \<noteq> None \<longrightarrow> err' \<noteq> None)
      \<and> (err' = None \<longrightarrow> ParseUint10 (FME_SocketID f) 32 = (unat w, None)))"
proof (intro conjI impI)
  assume "FME_GetPortsNum env f = (r, f1)" "snd (ParseUint10 (FME_PortsNum f1) 32) \<noteq> None"
  then show "r = - 1"
    by (auto simp: FME_GetPortsNum_def split: if_splits prod.splits option.splits)
next
  assume "FME_GetPortsNum env f = (r, f1)" "r = 0"
  then show "ParseUint10 (FME_PortsNum f1) 32 = (0, None)"
    by (auto simp: FME_GetPortsNum_def split: if_splits prod.splits option.splits)
next
  assume "Port_GetPortID env p = ((v, err), p1)" "snd (ParseUint10 (Port_ID p1) 32) \<noteq> None"
  then show "err \<noteq> None"
    by (auto simp: Port_GetPortID_def split: if_splits prod.splits option.splits)
next
  assume "Port_GetPortID env p = ((v, err), p1)" "err = None"
  then show "ParseUint10 (Port_ID p1) 32 = (unat v, None)"
    by (auto simp: Port_GetPortID_def ParseUint10_unat
          split: if_splits prod.splits option.splits)
next
  assume "FME_GetSocketID f = (w, err')" "snd (ParseUint10 (FME_SocketID f) 32) \<noteq> None"
  then show "err' \<noteq> None"
    by (auto simp: FME_GetSocketID_def split: if_splits prod.splits)
next
  assume "FME_GetSocketID f = (w, err')" "err' = None"
  then show "ParseUint10 (FME_SocketID f) 32 = (unat w, None)"
    by (auto simp: FME_GetSocketID_def ParseUint10_unat split: if_splits prod.splits)
qed


theorem conversion_failure_reported_witness:
  "FME_GetPortsNum env0 fme_bad = (- 1, fme_bad)
   \<and> ParseUint10 (FME_PortsNum fme_bad) 32 = (0, Some ErrSyntax)
   \<and> Port_GetPortID env0 port_bad = ((MaxUint32, Some (Err_num ErrRange)), port_bad)
   \<and> ParseUint10 (Port_ID port_bad) 32 = (4294967295, Some ErrRange)
   \<and> FME_GetSocketID fme_bad = (0, Some (Err_num ErrSyntax))
   \<and> ParseUint10 (FME_SocketID fme_bad) 32 = (0, Some ErrSyntax)
   \<and> FME_GetPortsNum env0 fme0 = (1, fme0)
   \<and> Port_GetPortID env0 port0 = ((0, None), port0)
   \<and> ParseUint10 (Port_ID port0) 32 = (0, None)"
proof -
  have a: "FME_PortsNum fme_bad = ''1x''" "FME_SocketID fme_bad = ''-1''"
    "Port_ID port_bad = ''4294967296''" "FME_PortsNum fme0 = ''1''" "Port_ID port0 = ''0''"
    by (simp_all add: fme_bad_def port_bad_def fme0_def port0_def)
  have b: "FME_GetPortsNum env0 fme_bad = (- 1, fme_bad)"
    by (simp add: FME_GetPortsNum_def a ParseUint10_1x)
  have c: "Port_GetPortID env0 port_bad = ((MaxUint32, Some (Err_num ErrRange)), port_bad)"
    by (simp add: Port_GetPortID_def a ParseUint10_2_32 MaxUint32_def)
  have d: "FME_GetSocketID fme_bad = (0, Some (Err_num ErrSyntax))"
    by (simp add: FME_GetSocketID_def a ParseUint10_minus)
  have e: "FME_GetPortsNum env0 fme0 = (1, fme0)"
    by (simp add: FME_GetPortsNum_def a ParseUint10_1)
  have g: "Port_GetPortID env0 port0 = ((0, None), port0)"
    by (simp add: Port_GetPortID_def a ParseUint10_0)
  show ?thesis
    using conversion_failure_reported [of env0 fme_bad "- 1" fme_bad port_bad MaxUint32 "Some (Err_num ErrRange)"
                port_bad 0 "Some (Err_num ErrSyntax)"]
      conversion_failure_reported [of env0 fme0 1 fme0 port0 0 None port0 0 None]
    by (simp add: a b c d e g ParseUint10_1x ParseUint10_minus ParseUint10_2_32 ParseUint10_0)
qed

subsection \<open>The name of a device whose sysfs entry is not found\<close>

text \<open>
  C10. On an FME or a Port with no name stored, when \<^verbatim>\<open>GetSysFsPath\<close> yields the empty
  string, \<^verbatim>\<open>GetName\<close> returns \<^verbatim>\<open>"."\<close> and stores it; every later call returns
  \<^verbatim>\<open>"."\<close> and leaves the object as it is, whatever the helpers would answer then.
\<close>

theorem GetName_dot_memoized:
  "(FME_Name f = [] \<and> fst (FME_GetSysFsPath env f) = [] \<longrightarrow>
      fst (FME_GetName env f) = ''.''
      \<and> FME_Name (snd (FME_GetName env f)) = ''.''
      \<and> FME_GetName env' (snd (FME_GetName env f)) = (''.'', snd (FME_GetName env f)))
   \<and> (Port_Name p = [] \<and> fst (Port_GetSysFsPath env p) = [] \<longrightarrow>
      fst (Port_GetName env p) = ''.''
      \<and> Port_Name (snd (Port_GetName env p)) = ''.''
      \<and> Port_GetName env' (snd (Port_GetName env p)) = (''.'', snd (Port_GetName env p)))"
proof (intro conjI impI)
  assume a: "FME_Name f = [] \<and> fst (FME_GetSysFsPath env f) = []"
  obtain s f1 where g: "FME_GetSysFsPath env f = (s, f1)"
    by (cases "FME_GetSysFsPath env f")
  with a have s: "s = []" by simp
  from a g s have n: "FME_GetName env f = (''.'', f1\<lparr>FME_Name := ''.''\<rparr>)"
    by (simp add: FME_GetName_def Base_def)
  show "fst (FME_GetName env f) = ''.''" using n by simp
  show "FME_Name (snd (FME_GetName env f)) = ''.''" using n by simp
  show "FME_GetName env' (snd (FME_GetName env f)) = (''.'', snd (FME_GetName env f))"
    using n by (simp add: FME_GetName_def)
next
  assume a: "Port_Name p = [] \<and> fst (Port_GetSysFsPath env p) = []"
  obtain s p1 where g: "Port_GetSysFsPath env p = (s, p1)"
    by (cases "Port_GetSysFsPath env p")
  with a have s: "s = []" by simp
  from a g s have n: "Port_GetName env p = (''.'', p1\<lparr>Port_Name := ''.''\<rparr>)"
    by (simp add: Port_GetName_def Base_def)
  show "fst (Port_GetName env p) = ''.''" using n by simp
  show "Port_Name (snd (Port_GetName env p)) = ''.''" using n by simp
  show "Port_GetName env' (snd (Port_GetName env p)) = (''.'', snd (Port_GetName env p))"
    using n by (simp add: Port_GetName_def)
qed

theorem GetName_dot_memoized_witness:
  "FME_Name fresh_fme0 = [] \<and> fst (FME_GetSysFsPath env_none fresh_fme0) = []
   \<and> FME_GetName env_none fresh_fme0 = (''.'', fresh_fme0\<lparr>FME_Name := ''.''\<rparr>)
   \<and> fst (FME_GetSysFsPath env0 (fresh_fme0\<lparr>FME_Name := ''.''\<rparr>)) = fme0_sysfs
   \<and> FME_GetName env0 (fresh_fme0\<lparr>FME_Name := ''.''\<rparr>) =
       (''.'', fresh_fme0\<lparr>FME_Name := ''.''\<rparr>)
   \<and> Port_Name fresh_port0 = [] \<and> fst (Port_GetSysFsPath env_none fresh_port0) = []
   \<and> Port_GetName env_none fresh_port0 = (''.'', fresh_port0\<lparr>Port_Name := ''.''\<rparr>)
   \<and> fst (Port_GetSysFsPath env0 (fresh_port0\<lparr>Port_Name := ''.''\<rparr>)) = port0_sysfs
   \<and> Port_GetName env0 (fresh_port0\<lparr>Port_Name := ''.''\<rparr>) =
       (''.'', fresh_port0\<lparr>Port_Name := ''.''\<rparr>)"
proof -
  have a: "FME_Name fresh_fme0 = []" "FME_SysFsPath fresh_fme0 = []"
    "FME_DevPath fresh_fme0 = ''/dev/intel-fpga-fme.0''"
    "Port_Name fresh_port0 = []" "Port_SysFsPath fresh_port0 = []"
    "Port_DevPath fresh_port0 = ''/dev/intel-fpga-port.0''"
    by (simp_all add: fresh_fme0_def new_FME_def fresh_port0_def new_Port_def)
  have b: "FME_GetSysFsPath env_none fresh_fme0 = ([], fresh_fme0)"
    "Port_GetSysFsPath env_none fresh_port0 = ([], fresh_port0)"
    by (simp_all add: FME_GetSysFsPath_def Port_GetSysFsPath_def a env_none_def)
  have c: "FME_GetName env_none fresh_fme0 = (''.'', fresh_fme0\<lparr>FME_Name := ''.''\<rparr>)"
    "Port_GetName env_none fresh_port0 = (''.'', fresh_port0\<lparr>Port_Name := ''.''\<rparr>)"
    by (simp_all add: FME_GetName_def Port_GetName_def a b Base_def)
  have d: "fst (FME_GetSysFsPath env0 (fresh_fme0\<lparr>FME_Name := ''.''\<rparr>)) = fme0_sysfs"
    "fst (Port_GetSysFsPath env0 (fresh_port0\<lparr>Port_Name := ''.''\<rparr>)) = port0_sysfs"
    by (simp_all add: FME_GetSysFsPath_def Port_GetSysFsPath_def a env0_def)
  show ?thesis
    using GetName_dot_memoized [of fresh_fme0 env_none env0 fresh_port0]
    by (simp add: a b c d)
qed

end
